theory Spec2Isabelle
  imports Main "HOL-Library.Code_Target_Nat"
begin

section \<open>Strings as the handlers use them\<close>

text \<open>
  A JavaScript string is a sequence of UTF-16 code units; \<open>jstring\<close> lists them as
  numbers. \<open>js\<close> gives the code units of a literal of the program text, which is
  ASCII.
\<close>

type_synonym jstring = "nat list"

definition cu :: "char \<Rightarrow> nat" where
  "cu c = of_char c"

definition js :: "string \<Rightarrow> jstring" where
  "js s = map cu s"

text \<open>
  \<open>toLowerCase\<close> and \<open>toUpperCase\<close> change exactly the letters of a string that
  holds ASCII code units only. What they give on any other string depends on the case
  tables of the JavaScript runtime, which are not part of the program: \<open>runtime\<close>
  stands for them, and every statement below holds for every runtime.
\<close>

record runtime =
  rt_lower :: "jstring \<Rightarrow> jstring"
  rt_upper :: "jstring \<Rightarrow> jstring"

definition ascii :: "nat \<Rightarrow> bool" where
  "ascii n = (n < 128)"

definition lower_unit :: "nat \<Rightarrow> nat" where
  "lower_unit n = (if 65 \<le> n \<and> n \<le> 90 then n + 32 else n)"

definition upper_unit :: "nat \<Rightarrow> nat" where
  "upper_unit n = (if 97 \<le> n \<and> n \<le> 122 then n - 32 else n)"

definition toLowerCase :: "runtime \<Rightarrow> jstring \<Rightarrow> jstring" where
  "toLowerCase rt s = (if list_all ascii s then map lower_unit s else rt_lower rt s)"

definition toUpperCase :: "runtime \<Rightarrow> jstring \<Rightarrow> jstring" where
  "toUpperCase rt s = (if list_all ascii s then map upper_unit s else rt_upper rt s)"

definition startsWith :: "jstring \<Rightarrow> jstring \<Rightarrow> bool" where
  "startsWith s p = (take (length p) s = p)"

definition endsWith :: "jstring \<Rightarrow> jstring \<Rightarrow> bool" where
  "endsWith s e = (length e \<le> length s \<and> drop (length s - length e) s = e)"

text \<open>
  White space as \<open>String.prototype.trim\<close>, \<open>parseInt\<close> and the class \<open>\s\<close> of
  regular expressions read it: the code points \<open>WhiteSpace\<close> and \<open>LineTerminator\<close>
  of the language (tab to carriage return, space, U+00A0, U+1680, U+2000 to U+200A,
  U+2028, U+2029, U+202F, U+205F, U+3000, U+FEFF).
\<close>

definition in_range :: "nat \<Rightarrow> nat \<times> nat \<Rightarrow> bool" where
  "in_range n r = (fst r \<le> n \<and> n \<le> snd r)"

definition in_class :: "(nat \<times> nat) list \<Rightarrow> nat \<Rightarrow> bool" where
  "in_class rs n = list_ex (in_range n) rs"

definition space_ranges :: "(nat \<times> nat) list" where
  "space_ranges =
     [(0x09, 0x0D), (0x20, 0x20), (0xA0, 0xA0), (0x1680, 0x1680), (0x2000, 0x200A),
      (0x2028, 0x2029), (0x202F, 0x202F), (0x205F, 0x205F), (0x3000, 0x3000),
      (0xFEFF, 0xFEFF)]"

definition is_space :: "nat \<Rightarrow> bool" where
  "is_space n = in_class space_ranges n"

definition trim :: "jstring \<Rightarrow> jstring" where
  "trim s = rev (dropWhile is_space (rev (dropWhile is_space s)))"

text \<open>
  A value read from a JSON body, a header or the environment may be absent
  (\<open>undefined\<close> or \<open>null\<close>): \<open>None\<close>. JavaScript's \<open>!v\<close> holds for an absent value
  and for the empty string; \<open>truthy\<close> keeps exactly the values for which it fails.
\<close>

fun truthy :: "jstring option \<Rightarrow> jstring option" where
  "truthy None = None"
| "truthy (Some []) = None"
| "truthy (Some (c # cs)) = Some (c # cs)"

section \<open>The admin API (OTP login, sessions)\<close>

subsection \<open>Tables, environment, requests and responses\<close>

text \<open>
  Rows of \<open>otp_codes\<close> and \<open>admin_sessions\<close> as \<open>initializeDatabase\<close> creates them.
  Timestamps are seconds on the store's clock. \<open>outbox\<close> lists the messages posted to
  the e-mail API, \<open>inquiries\<close> the rows of the table of that name.
\<close>

record otp_row =
  o_id :: nat
  o_email :: jstring
  o_code :: jstring
  o_expires_at :: int
  o_used :: bool
  o_created_at :: int

record session_row =
  s_id :: nat
  s_token :: jstring
  s_email :: jstring
  s_expires_at :: int
  s_created_at :: int

record mail =
  m_from :: jstring
  m_to :: jstring
  m_reply_to :: "jstring option"
  m_subject :: jstring
  m_text :: jstring

record inquiry_row =
  i_id :: nat
  i_client_id :: "nat option"
  i_name :: jstring
  i_email :: jstring
  i_company :: "jstring option"
  i_budget :: "jstring option"
  i_message :: jstring
  i_created_at :: int

record world =
  otp_codes :: "otp_row list"
  otp_serial :: nat
  admin_sessions :: "session_row list"
  session_serial :: nat
  inquiries :: "inquiry_row list"
  inquiry_serial :: nat
  outbox :: "mail list"

text \<open>The variables read with \<open>Netlify.env.get\<close>.\<close>

record env =
  ADMIN_EMAIL :: "jstring option"
  RESEND_API_KEY :: "jstring option"
  FROM_EMAIL :: "jstring option"
  CONTACT_EMAIL :: "jstring option"

text \<open>
  What one invocation receives from outside the program: the store's \<open>NOW()\<close> (one
  reading for the whole invocation), whether the store carries out the queries of the
  invocation (when it does not, because it cannot be reached or because it refuses a
  parameter, such as a string that holds U+0000, the first query throws), the outcome
  of a \<open>fetch\<close> to the e-mail API, and the values \<open>generateOTP()\<close> and
  \<open>generateSessionToken()\<close> draw with \<open>Math.random\<close>.
\<close>

datatype fetch_result = Accepted | Refused | NetworkError

record ext =
  x_now :: int
  x_db_ok :: bool
  x_fetch :: fetch_result
  x_otp :: jstring
  x_token :: jstring

record otp_body =
  b_email :: "jstring option"
  b_code :: "jstring option"

text \<open>
  A request to the admin function: \<open>request.method\<close>, the URL's \<open>pathname\<close>, the
  \<open>Authorization\<close> header, and the JSON body (\<open>None\<close> when \<open>request.json()\<close> throws).
\<close>

record request =
  r_method :: jstring
  r_pathname :: jstring
  r_authorization :: "jstring option"
  r_body :: "otp_body option"

text \<open>
  The body of a response. The messages of the program are literals of its text and
  are kept as such.
\<close>

datatype payload =
    Sent
  | Success
  | SuccessMessage string
  | Session jstring nat
  | Failure string
  | NoContent

record response =
  status :: nat
  body :: payload

definition jsonResponse :: "payload \<Rightarrow> nat \<Rightarrow> response" where
  "jsonResponse d st = \<lparr>status = st, body = d\<rparr>"

definition errorResponse :: "string \<Rightarrow> nat \<Rightarrow> response" where
  "errorResponse message st = jsonResponse (Failure message) st"

definition handleCors :: response where
  "handleCors = \<lparr>status = 204, body = NoContent\<rparr>"

subsection \<open>checkAuth\<close>

text \<open>
  \<open>authHeader.replace("Bearer ", "")\<close> removes the first occurrence, which is the
  prefix once \<open>startsWith\<close> has held.
\<close>

definition bearerToken :: "jstring \<Rightarrow> jstring" where
  "bearerToken authHeader = drop (length (js ''Bearer '')) authHeader"

definition live_session :: "int \<Rightarrow> jstring \<Rightarrow> session_row \<Rightarrow> bool" where
  "live_session now token s = (s_token s = token \<and> s_expires_at s > now)"

definition checkAuth :: "ext \<Rightarrow> jstring option \<Rightarrow> world \<Rightarrow> bool" where
  "checkAuth x authHeader w =
     (case truthy authHeader of
        None \<Rightarrow> False
      | Some h \<Rightarrow>
          if \<not> startsWith h (js ''Bearer '') then False
          else if \<not> x_db_ok x then False
          else filter (live_session (x_now x) (bearerToken h)) (admin_sessions w) \<noteq> [])"

subsection \<open>sendOTP\<close>

definition purge_codes :: "int \<Rightarrow> otp_row list \<Rightarrow> otp_row list" where
  "purge_codes now rows = filter (\<lambda>r. \<not> o_expires_at r < now) rows"

definition recent_code :: "int \<Rightarrow> jstring \<Rightarrow> otp_row \<Rightarrow> bool" where
  "recent_code now email r = (o_email r = email \<and> o_created_at r > now - 900)"

text \<open>
  The login message has an HTML body only; \<open>m_text\<close> holds the code that body
  shows.
\<close>

definition otp_mail :: "jstring \<Rightarrow> jstring \<Rightarrow> jstring \<Rightarrow> mail" where
  "otp_mail fromEmail email code =
     \<lparr>m_from = js ''The Scale Rebel <'' @ fromEmail @ js ''>'', m_to = email, m_reply_to = None,
      m_subject = js ''Your admin login code'', m_text = code\<rparr>"

definition sendOTP :: "runtime \<Rightarrow> env \<Rightarrow> ext \<Rightarrow> otp_body option \<Rightarrow> world \<Rightarrow> response \<times> world" where
  "sendOTP rt e x json w =
     (case json of
        None \<Rightarrow> (errorResponse ''Failed to send verification code'' 500, w)
      | Some b \<Rightarrow>
     (case truthy (b_email b) of
        None \<Rightarrow> (errorResponse ''Email is required'' 400, w)
      | Some email \<Rightarrow>
     (case truthy (ADMIN_EMAIL e) of
        None \<Rightarrow> (errorResponse ''Admin login not configured'' 500, w)
      | Some adminEmail \<Rightarrow>
          if toLowerCase rt email \<noteq> toLowerCase rt adminEmail then (jsonResponse Sent 200, w)
          else if \<not> x_db_ok x then (errorResponse ''Failed to send verification code'' 500, w)
          else
            let w1 = w\<lparr>otp_codes := purge_codes (x_now x) (otp_codes w)\<rparr>;
                recentCodes = length (filter (recent_code (x_now x) (toLowerCase rt email)) (otp_codes w1))
            in if recentCodes \<ge> 5 then (errorResponse ''Too many attempts. Try again later.'' 429, w1)
               else
                 let code = x_otp x;
                     w2 = w1\<lparr>otp_codes := otp_codes w1 @
                                 [\<lparr>o_id = otp_serial w1, o_email = toLowerCase rt email, o_code = code,
                                   o_expires_at = x_now x + 600, o_used = False,
                                   o_created_at = x_now x\<rparr>],
                              otp_serial := Suc (otp_serial w1)\<rparr>
                 in (case (truthy (RESEND_API_KEY e), truthy (FROM_EMAIL e)) of
                       (Some resendApiKey, Some fromEmail) \<Rightarrow>
                         let w3 = w2\<lparr>outbox := outbox w2 @ [otp_mail fromEmail email code]\<rparr>
                         in (case x_fetch x of
                               NetworkError \<Rightarrow> (errorResponse ''Failed to send verification code'' 500, w3)
                             | Refused \<Rightarrow> (errorResponse ''Failed to send verification email'' 500, w3)
                             | Accepted \<Rightarrow> (jsonResponse Sent 200, w3))
                     | _ \<Rightarrow> (errorResponse ''Email service not configured'' 500, w2)))))"

subsection \<open>verifyOTP\<close>

definition valid_otp :: "int \<Rightarrow> jstring \<Rightarrow> jstring \<Rightarrow> otp_row \<Rightarrow> bool" where
  "valid_otp now email code r =
     (o_email r = email \<and> o_code r = code \<and> o_expires_at r > now \<and> o_used r = False)"

text \<open>
  \<open>ORDER BY created_at DESC LIMIT 1\<close>: a row with the greatest \<open>created_at\<close>. SQL
  leaves the choice among equal timestamps open; here the earliest such row of the
  table is taken.
\<close>

fun latest :: "otp_row list \<Rightarrow> otp_row option" where
  "latest [] = None"
| "latest (r # rs) =
     (case latest rs of
        None \<Rightarrow> Some r
      | Some r' \<Rightarrow> if o_created_at r' > o_created_at r then Some r' else Some r)"

definition mark_used :: "nat \<Rightarrow> otp_row list \<Rightarrow> otp_row list" where
  "mark_used i rows = map (\<lambda>r. if o_id r = i then r\<lparr>o_used := True\<rparr> else r) rows"

definition purge_sessions :: "int \<Rightarrow> session_row list \<Rightarrow> session_row list" where
  "purge_sessions now rows = filter (\<lambda>s. \<not> s_expires_at s < now) rows"

definition verifyOTP :: "runtime \<Rightarrow> env \<Rightarrow> ext \<Rightarrow> otp_body option \<Rightarrow> world \<Rightarrow> response \<times> world" where
  "verifyOTP rt e x json w =
     (case json of
        None \<Rightarrow> (errorResponse ''Verification failed'' 500, w)
      | Some b \<Rightarrow>
     (case (truthy (b_email b), truthy (b_code b)) of
        (Some email, Some code) \<Rightarrow>
          (case truthy (ADMIN_EMAIL e) of
             None \<Rightarrow> (errorResponse ''Invalid code'' 401, w)
           | Some adminEmail \<Rightarrow>
               if toLowerCase rt email \<noteq> toLowerCase rt adminEmail
               then (errorResponse ''Invalid code'' 401, w)
               else if \<not> x_db_ok x then (errorResponse ''Verification failed'' 500, w)
               else
                 (case latest (filter (valid_otp (x_now x) (toLowerCase rt email) code) (otp_codes w)) of
                    None \<Rightarrow> (errorResponse ''Invalid or expired code'' 401, w)
                  | Some otp \<Rightarrow>
                      let w1 = w\<lparr>otp_codes := mark_used (o_id otp) (otp_codes w)\<rparr>;
                          w2 = w1\<lparr>admin_sessions := purge_sessions (x_now x) (admin_sessions w1)\<rparr>;
                          token = x_token x
                      in if filter (\<lambda>s. s_token s = token) (admin_sessions w2) \<noteq> []
                         then (errorResponse ''Verification failed'' 500, w2)
                         else
                           (jsonResponse (Session token 86400) 200,
                            w2\<lparr>admin_sessions := admin_sessions w2 @
                                  [\<lparr>s_id = session_serial w2, s_token = token,
                                    s_email = toLowerCase rt email,
                                    s_expires_at = x_now x + 86400, s_created_at = x_now x\<rparr>],
                                session_serial := Suc (session_serial w2)\<rparr>)))
      | _ \<Rightarrow> (errorResponse ''Email and code are required'' 400, w)))"

text \<open>
  \<open>admin_sessions.token\<close> is declared \<open>UNIQUE\<close>: inserting a token that a row
  already holds throws, and the handler answers 500 after the code has been marked.
\<close>

subsection \<open>logout\<close>

definition logout :: "ext \<Rightarrow> jstring option \<Rightarrow> world \<Rightarrow> response \<times> world" where
  "logout x authHeader w =
     (case truthy authHeader of
        None \<Rightarrow> (jsonResponse Success 200, w)
      | Some h \<Rightarrow>
          if startsWith h (js ''Bearer '') then
            (if x_db_ok x
             then (jsonResponse Success 200,
                   w\<lparr>admin_sessions := filter (\<lambda>s. s_token s \<noteq> bearerToken h) (admin_sessions w)\<rparr>)
             else (jsonResponse Success 200, w))
          else (jsonResponse Success 200, w))"

subsection \<open>The handler\<close>

text \<open>
  The routes behind the authentication check work on the \<open>clients\<close> and \<open>inquiries\<close>
  tables; the handler's result for them is the route it hands the request to.
\<close>

datatype route = GetClients | GetInquiries | CreateClient | LinkInquiry | UpdateClient | DeleteClient

datatype outcome = Respond response | Dispatch route

definition respond :: "response \<times> world \<Rightarrow> outcome \<times> world" where
  "respond rw = (Respond (fst rw), snd rw)"

definition handler :: "runtime \<Rightarrow> env \<Rightarrow> ext \<Rightarrow> request \<Rightarrow> world \<Rightarrow> outcome \<times> world" where
  "handler rt e x req w =
     (if r_method req = js ''OPTIONS'' then (Respond handleCors, w)
      else if \<not> x_db_ok x then (Respond (errorResponse ''Internal server error'' 500), w)
      else if r_method req = js ''POST'' \<and> endsWith (r_pathname req) (js ''/api/admin/otp/send'')
        then respond (sendOTP rt e x (r_body req) w)
      else if r_method req = js ''POST'' \<and> endsWith (r_pathname req) (js ''/api/admin/otp/verify'')
        then respond (verifyOTP rt e x (r_body req) w)
      else if r_method req = js ''POST'' \<and> endsWith (r_pathname req) (js ''/api/admin/otp/logout'')
        then respond (logout x (r_authorization req) w)
      else if \<not> checkAuth x (r_authorization req) w
        then (Respond (errorResponse ''Unauthorized'' 401), w)
      else if r_method req = js ''GET'' \<and> endsWith (r_pathname req) (js ''/api/admin/clients'')
        then (Dispatch GetClients, w)
      else if r_method req = js ''GET'' \<and> endsWith (r_pathname req) (js ''/api/admin/inquiries'')
        then (Dispatch GetInquiries, w)
      else if r_method req = js ''POST'' \<and> endsWith (r_pathname req) (js ''/api/admin/clients'')
        then (Dispatch CreateClient, w)
      else if r_method req = js ''POST'' \<and> endsWith (r_pathname req) (js ''/api/admin/inquiries/link'')
        then (Dispatch LinkInquiry, w)
      else if r_method req = js ''PUT'' \<and> endsWith (r_pathname req) (js ''/api/admin/clients'')
        then (Dispatch UpdateClient, w)
      else if r_method req = js ''DELETE'' \<and> endsWith (r_pathname req) (js ''/api/admin/clients'')
        then (Dispatch DeleteClient, w)
      else (Respond (errorResponse ''Not found'' 404), w))"

text \<open>The routes the handler serves before the authentication check.\<close>

definition otp_route :: "request \<Rightarrow> bool" where
  "otp_route req =
     (r_method req = js ''POST'' \<and>
      (endsWith (r_pathname req) (js ''/api/admin/otp/send'') \<or>
       endsWith (r_pathname req) (js ''/api/admin/otp/verify'') \<or>
       endsWith (r_pathname req) (js ''/api/admin/otp/logout'')))"

subsection \<open>Example data\<close>

text \<open>
  The strings of the examples are ASCII, on which the case tables of the runtime are
  not consulted; \<open>demo_runtime\<close> stands for any of them.
\<close>

definition demo_runtime :: runtime where
  "demo_runtime = \<lparr>rt_lower = (\<lambda>s. s), rt_upper = (\<lambda>s. s)\<rparr>"

text \<open>
  A runtime whose tables fold, beside the ASCII letters, the Kelvin sign U+212A to
  \<open>k\<close>, as Unicode does.
\<close>

definition folding_runtime :: runtime where
  "folding_runtime =
     \<lparr>rt_lower = map (\<lambda>n. if n = 0x212A then 0x6B else lower_unit n),
      rt_upper = map upper_unit\<rparr>"

definition kelvin_env :: env where
  "kelvin_env = \<lparr>ADMIN_EMAIL = Some (js ''ok@site.io''), RESEND_API_KEY = Some (js ''re_key''),
                 FROM_EMAIL = Some (js ''noreply@site.io''),
                 CONTACT_EMAIL = Some (js ''ok@site.io'')\<rparr>"

definition kelvin_email :: jstring where
  "kelvin_email = js ''o'' @ [0x212A] @ js ''@site.io''"

definition kelvin_body :: "otp_body option" where
  "kelvin_body = Some \<lparr>b_email = Some kelvin_email, b_code = Some (js ''483920'')\<rparr>"

definition demo_env :: env where
  "demo_env = \<lparr>ADMIN_EMAIL = Some (js ''owner@site.io''), RESEND_API_KEY = Some (js ''re_key''),
               FROM_EMAIL = Some (js ''noreply@site.io''),
               CONTACT_EMAIL = Some (js ''owner@site.io'')\<rparr>"

definition empty_world :: world where
  "empty_world = \<lparr>otp_codes = [], otp_serial = 1, admin_sessions = [], session_serial = 1,
                  inquiries = [], inquiry_serial = 1, outbox = []\<rparr>"

definition at_time :: "int \<Rightarrow> ext" where
  "at_time t = \<lparr>x_now = t, x_db_ok = True, x_fetch = Accepted, x_otp = js ''483920'',
               x_token = js ''tokenA''\<rparr>"

definition login_as :: "string \<Rightarrow> otp_body option" where
  "login_as email = Some \<lparr>b_email = Some (js email), b_code = Some (js ''483920'')\<rparr>"

definition login_body :: "otp_body option" where
  "login_body = login_as ''Owner@site.io''"

definition issue :: "int \<Rightarrow> world \<Rightarrow> world" where
  "issue t w = snd (sendOTP demo_runtime demo_env (at_time t) login_body w)"

definition redeem :: "int \<Rightarrow> string \<Rightarrow> world \<Rightarrow> response \<times> world" where
  "redeem t tok w =
     verifyOTP demo_runtime demo_env ((at_time t)\<lparr>x_token := js tok\<rparr>) login_body w"

definition two_sessions :: world where
  "two_sessions = empty_world\<lparr>admin_sessions :=
     [\<lparr>s_id = 1, s_token = js ''tokenA'', s_email = js ''owner@site.io'',
       s_expires_at = 86400, s_created_at = 0\<rparr>,
      \<lparr>s_id = 2, s_token = js ''tokenB'', s_email = js ''owner@site.io'',
       s_expires_at = 86460, s_created_at = 60\<rparr>]\<rparr>"

text \<open>Five codes requested by the administrator at time 0.\<close>

definition five_codes :: world where
  "five_codes = issue 0 (issue 0 (issue 0 (issue 0 (issue 0 empty_world))))"



section \<open>Regular expressions\<close>

text \<open>
  The request filter and the contact form test strings against JavaScript regular
  expressions (none has the \<open>u\<close> flag, so they work on code units). \<open>rx\<close> holds the
  constructs those expressions use; \<open>LitI\<close> is a literal under the \<open>i\<close> flag, \<open>Dot\<close>
  is \<open>.\<close>, \<open>Cls\<close> and \<open>NCls\<close> are a character class and its complement given by
  ranges, \<open>Eol\<close> is \<open>$\<close> (no \<open>m\<close> flag: the end of the input) and \<open>NotAhead\<close> is
  \<open>(?!...)\<close>. The literals of the expressions are ASCII: under the \<open>i\<close> flag such
  a literal matches the code units that differ from it by ASCII case only, since a
  code unit outside ASCII is never canonicalized to one inside.
\<close>

datatype rx =
    Eps
  | Lit nat
  | LitI nat
  | Dot
  | Cls "(nat \<times> nat) list"
  | NCls "(nat \<times> nat) list"
  | Seq rx rx
  | Alt rx rx
  | Star rx
  | Eol
  | NotAhead rx

definition line_terminator :: "nat \<Rightarrow> bool" where
  "line_terminator n = (n = 0x0A \<or> n = 0x0D \<or> n = 0x2028 \<or> n = 0x2029)"

text \<open>
  \<open>star f n s\<close>: the inputs left after zero or more rounds of \<open>f\<close>, each consuming at
  least one code unit, so that \<open>length s\<close> rounds are enough.
\<close>

fun star :: "(jstring \<Rightarrow> jstring list) \<Rightarrow> nat \<Rightarrow> jstring \<Rightarrow> jstring list" where
  "star f 0 s = [s]"
| "star f (Suc n) s = s # concat (map (star f n) (filter (\<lambda>t. length t < length s) (f s)))"

text \<open>\<open>rests r s\<close>: what is left of \<open>s\<close> after each way of matching \<open>r\<close> at its start.\<close>

primrec rests :: "rx \<Rightarrow> jstring \<Rightarrow> jstring list" where
  "rests Eps s = [s]"
| "rests (Lit c) s = (case s of [] \<Rightarrow> [] | d # t \<Rightarrow> if d = c then [t] else [])"
| "rests (LitI c) s =
     (case s of [] \<Rightarrow> [] | d # t \<Rightarrow> if lower_unit d = lower_unit c then [t] else [])"
| "rests Dot s = (case s of [] \<Rightarrow> [] | d # t \<Rightarrow> if line_terminator d then [] else [t])"
| "rests (Cls rs) s = (case s of [] \<Rightarrow> [] | d # t \<Rightarrow> if in_class rs d then [t] else [])"
| "rests (NCls rs) s = (case s of [] \<Rightarrow> [] | d # t \<Rightarrow> if in_class rs d then [] else [t])"
| "rests (Seq a b) s = concat (map (rests b) (rests a s))"
| "rests (Alt a b) s = rests a s @ rests b s"
| "rests (Star a) s = star (rests a) (length s) s"
| "rests Eol s = (if s = [] then [s] else [])"
| "rests (NotAhead a) s = (if rests a s = [] then [s] else [])"

fun search :: "rx \<Rightarrow> jstring \<Rightarrow> bool" where
  "search r [] = (rests r [] \<noteq> [])"
| "search r (c # cs) = (rests r (c # cs) \<noteq> [] \<or> search r cs)"

text \<open>
  A \<open>RegExp\<close> either may match anywhere in the input or starts with \<open>^\<close>;
  \<open>test\<close> is \<open>RegExp.prototype.test\<close>.
\<close>

datatype regexp = Anywhere rx | AtStart rx

fun test :: "regexp \<Rightarrow> jstring \<Rightarrow> bool" where
  "test (Anywhere r) s = search r s"
| "test (AtStart r) s = (rests r s \<noteq> [])"

text \<open>Literal text of an expression, without and with the \<open>i\<close> flag.\<close>

primrec lit :: "string \<Rightarrow> rx" where
  "lit [] = Eps"
| "lit (c # cs) = Seq (Lit (cu c)) (lit cs)"

primrec liti :: "string \<Rightarrow> rx" where
  "liti [] = Eps"
| "liti (c # cs) = Seq (LitI (cu c)) (liti cs)"

definition many1 :: "rx \<Rightarrow> rx" where
  "many1 r = Seq r (Star r)"

definition opt :: "rx \<Rightarrow> rx" where
  "opt r = Alt r Eps"

primrec seqs :: "rx list \<Rightarrow> rx" where
  "seqs [] = Eps"
| "seqs (r # rs) = Seq r (seqs rs)"

primrec alts :: "rx \<Rightarrow> rx list \<Rightarrow> rx" where
  "alts r [] = r"
| "alts r (q # qs) = Alt r (alts q qs)"

text \<open>Ranges of a class, \<open>\s\<close> and \<open>[0-9]\<close>.\<close>

definition span :: "char \<Rightarrow> char \<Rightarrow> nat \<times> nat" where
  "span a b = (cu a, cu b)"

definition just :: "char \<Rightarrow> nat \<times> nat" where
  "just a = (cu a, cu a)"

definition ws :: rx where
  "ws = Cls space_ranges"

definition digit :: rx where
  "digit = Cls [span (CHR ''0'') (CHR ''9'')]"

definition backslash :: char where
  "backslash = CHR 0x5C"


section \<open>The edge request filter\<close>

subsection \<open>The deny lists\<close>

definition BLOCKED_EXTENSIONS :: "string list" where
  "BLOCKED_EXTENSIONS =
     [''.php'', ''.asp'', ''.aspx'', ''.jsp'', ''.cgi'', ''.pl'', ''.exe'', ''.dll'', ''.env'',
      ''.git'', ''.bak'', ''.sql'', ''.config'', ''.ini'', ''.log'', ''.sh'', ''.bash'', ''.zsh'',
      ''.py'', ''.rb'', ''.jar'', ''.war'', ''.class'']"

definition BLOCKED_PATH_PATTERNS :: "regexp list" where
  "BLOCKED_PATH_PATTERNS = map Anywhere
     [liti ''/wp-admin'', liti ''/wp-content'', liti ''/wp-includes'', liti ''/wp-login'',
      liti ''/wp-config'', liti ''/wp-json'', liti ''/xmlrpc'', liti ''/wp-cron'',
      liti ''/wp-trackback'', liti ''/wp-comments'', liti ''/wordpress'',
      liti ''/administrator'', liti ''/joomla'', liti ''/drupal'', liti ''/magento'',
      liti ''/phpmyadmin'', liti ''/cpanel'', liti ''/plesk'', liti ''/webmail'',
      liti ''/roundcube'', liti ''/squirrelmail'',
      liti ''/shell'', liti ''/c99'', liti ''/r57'', liti ''/alfa'', liti ''/b374k'',
      liti ''/weevely'', liti ''/wso'',
      liti ''.git/'', liti ''.svn/'', liti ''.hg/'', Seq (liti ''.env'') Eol, liti ''.env.'',
      liti ''.htaccess'', liti ''.htpasswd'', liti ''.npmrc'', liti ''.dockerenv'',
      Seq (liti ''/.well-known/'') (NotAhead (liti ''acme-challenge'')),
      Seq (liti ''.bak'') Eol, Seq (liti ''.backup'') Eol, Seq (liti ''.old'') Eol,
      Seq (liti ''.orig'') Eol, Seq (liti ''.save'') Eol, Seq (liti ''.swp'') Eol,
      Seq (Lit (cu (CHR ''~''))) Eol,
      Seq (liti ''.sql'') Eol, liti ''dump.'', liti ''backup.'', liti ''database.'', liti ''db.'',
      liti ''/cgi-bin/'', liti ''/scripts/'', liti ''/bin/'', liti ''/etc/passwd'', liti ''/proc/'',
      liti ''/var/log'', liti ''/tmp/'',
      liti ''/eval'', liti ''/exec'', liti ''/system'', liti ''/passthru'', liti ''/actuator'',
      liti ''/console'', liti ''/debug'', liti ''/trace'', liti ''/manager'',
      seqs [liti ''/api/v'', many1 digit, liti ''/admin''],
      liti ''/solr'', liti ''/jenkins'', liti ''/struts'', liti ''/log4j'', liti ''/vendor/'',
      liti ''/node_modules/'', liti ''/bower_components/'']"

definition BLOCKED_QUERY_PATTERNS :: "regexp list" where
  "BLOCKED_QUERY_PATTERNS = map Anywhere
     [Alt (liti ''%00'') (liti (backslash # ''x00'')),
      liti ''<script'', liti ''javascript:'', liti ''vbscript:'', liti ''data:'', liti ''base64,'',
      seqs [liti ''union'', many1 ws, liti ''select''],
      seqs [liti ''select'', many1 ws, Star Dot, many1 ws, liti ''from''],
      seqs [liti ''insert'', many1 ws, liti ''into''],
      seqs [liti ''drop'', many1 ws, liti ''table''],
      seqs [liti ''delete'', many1 ws, liti ''from''],
      seqs [liti ''update'', many1 ws, Star Dot, many1 ws, liti ''set''],
      seqs [liti '';'', Star Dot, liti ''--''],
      liti ''../'', liti ''%2e%2e'',
      seqs [liti ''${'', Star Dot, liti ''}''],
      seqs [liti ''{{'', Star Dot, liti ''}}''],
      liti ''$poison'',
      seqs [liti ''eval'', Star ws, liti ''(''],
      seqs [liti ''exec'', Star ws, liti ''(''],
      liti ''cmd='', liti ''passwd'', liti ''etc/shadow'', liti ''phpinfo'',
      seqs [liti ''system'', Star ws, liti ''(''],
      liti ''file://'', liti ''gopher://'', liti ''dict://'']"

definition BLOCKED_USER_AGENTS :: "regexp list" where
  "BLOCKED_USER_AGENTS =
     map Anywhere
       [liti ''sqlmap'', liti ''nikto'', liti ''nmap'', liti ''masscan'', liti ''zmeu'',
        liti ''morfeus'', liti ''zgrab'', liti ''gobuster'', liti ''dirbuster'', liti ''wpscan'',
        liti ''nessus'', liti ''openvas'', liti ''nuclei'', liti ''acunetix'', liti ''burpsuite'',
        liti ''havij'', liti ''w3af'', liti ''arachni'', liti ''qualys''] @
     [AtStart Eol]"

definition SUSPICIOUS_HEADERS :: "string list" where
  "SUSPICIOUS_HEADERS = [''x-forwarded-host'', ''x-original-url'', ''x-rewrite-url'']"

text \<open>The expression the handler tests a suspicious user agent against before it blocks.\<close>

definition MALICIOUS_USER_AGENT :: regexp where
  "MALICIOUS_USER_AGENT =
     Anywhere (alts (liti ''sqlmap'')
       [liti ''nikto'', liti ''zmeu'', liti ''morfeus'', liti ''zgrab'', liti ''wpscan'',
        liti ''acunetix'', liti ''havij'', liti ''w3af''])"


subsection \<open>Requests\<close>

text \<open>
  A request as the filter reads it: \<open>request.method\<close>, the \<open>pathname\<close> and \<open>search\<close> of
  its URL, and its headers by lowercase name (\<open>Headers.get\<close> gives \<open>null\<close>, here
  \<open>None\<close>, for a header the request does not carry).
\<close>

record edge_request =
  q_method :: jstring
  q_pathname :: jstring
  q_search :: jstring
  q_headers :: "(jstring \<times> jstring) list"

definition header_get :: "edge_request \<Rightarrow> jstring \<Rightarrow> jstring option" where
  "header_get req name = map_of (q_headers req) name"

definition header_has :: "edge_request \<Rightarrow> jstring \<Rightarrow> bool" where
  "header_has req name = (map_of (q_headers req) name \<noteq> None)"

subsection \<open>parseInt\<close>

text \<open>
  \<open>parseInt(s, 10)\<close>: leading white space is skipped, a sign is read, then the longest
  run of decimal digits; with no digit the result is \<open>NaN\<close>, here \<open>None\<close>. The value
  is kept exact; the comparison with \<open>1048576\<close> gives the same answer on the double
  JavaScript computes.
\<close>

definition is_digit :: "nat \<Rightarrow> bool" where
  "is_digit n = in_range n (span (CHR ''0'') (CHR ''9''))"

definition digit_value :: "nat \<Rightarrow> int" where
  "digit_value n = int n - 48"

definition digits_value :: "jstring \<Rightarrow> int" where
  "digits_value ds = foldl (\<lambda>n c. 10 * n + digit_value c) 0 ds"

definition parseInt :: "jstring \<Rightarrow> int option" where
  "parseInt s =
     (let t = dropWhile is_space s;
          negative = (case t of [] \<Rightarrow> False | c # _ \<Rightarrow> c = cu (CHR ''-''));
          u = (case t of [] \<Rightarrow> []
               | c # r \<Rightarrow> if c = cu (CHR ''-'') \<or> c = cu (CHR ''+'') then r else t);
          ds = takeWhile is_digit u
      in if ds = [] then None
         else Some (if negative then - digits_value ds else digits_value ds))"

subsection \<open>The checks\<close>

definition isBlockedExtension :: "runtime \<Rightarrow> jstring \<Rightarrow> bool" where
  "isBlockedExtension rt pathname =
     (let lowerPath = toLowerCase rt pathname
      in list_ex (\<lambda>ext. endsWith lowerPath (js ext)) BLOCKED_EXTENSIONS)"

definition isBlockedPath :: "jstring \<Rightarrow> bool" where
  "isBlockedPath pathname = list_ex (\<lambda>pattern. test pattern pathname) BLOCKED_PATH_PATTERNS"

definition hasSuspiciousQuery :: "jstring \<Rightarrow> bool" where
  "hasSuspiciousQuery search_string =
     (if search_string = [] then False
      else list_ex (\<lambda>pattern. test pattern search_string) BLOCKED_QUERY_PATTERNS)"

definition isSuspiciousUserAgent :: "jstring option \<Rightarrow> bool" where
  "isSuspiciousUserAgent userAgent =
     (case truthy userAgent of
        None \<Rightarrow> True
      | Some ua \<Rightarrow> list_ex (\<lambda>pattern. test pattern ua) BLOCKED_USER_AGENTS)"

definition hasSuspiciousHeaders :: "edge_request \<Rightarrow> bool" where
  "hasSuspiciousHeaders req = list_ex (\<lambda>header. header_has req (js header)) SUSPICIOUS_HEADERS"

definition isOversizedRequest :: "edge_request \<Rightarrow> bool" where
  "isOversizedRequest req =
     (case truthy (header_get req (js ''content-length'')) of
        None \<Rightarrow> False
      | Some contentLength \<Rightarrow>
          (case parseInt contentLength of
             None \<Rightarrow> False
           | Some size' \<Rightarrow> size' > 1048576))"

subsection \<open>The filter\<close>

text \<open>
  The filter answers with a status and a body, or hands the request on
  (\<open>context.next()\<close>). The second component of its result lists the lines it writes
  with \<open>console.log\<close>.
\<close>

datatype verdict = Block nat string | Next

text \<open>The method policy and the POST allowlist, the last two rules.\<close>

definition method_rules :: "runtime \<Rightarrow> edge_request \<Rightarrow> verdict \<times> jstring list" where
  "method_rules rt req =
     (let pathname = q_pathname req;
          method = toUpperCase rt (q_method req);
          isAdminPath = startsWith pathname (js ''/api/admin/'');
          allowedMethods =
            (if isAdminPath then [''GET'', ''HEAD'', ''OPTIONS'', ''POST'', ''PUT'', ''DELETE'']
             else [''GET'', ''HEAD'', ''OPTIONS'', ''POST''])
      in if method \<notin> set (map js allowedMethods)
         then (Block 405 ''Method Not Allowed'',
               [js ''Blocked request (method): '' @ method @ js '' '' @ pathname])
         else if method = js ''POST'' \<and>
                 \<not> list_ex (\<lambda>path. startsWith pathname (js path))
                     [''/api/send-email'', ''/api/admin/'', ''/.netlify/functions/'']
         then (Block 405 ''Method Not Allowed'',
               [js ''Blocked POST to non-allowed path: '' @ pathname])
         else (Next, []))"

definition edge_filter :: "runtime \<Rightarrow> edge_request \<Rightarrow> verdict \<times> jstring list" where
  "edge_filter rt req =
     (let pathname = q_pathname req;
          search_string = q_search req;
          userAgent = header_get req (js ''user-agent'')
      in if isOversizedRequest req
         then (Block 413 ''Payload Too Large'', [js ''Blocked request (oversized): '' @ pathname])
         else if isBlockedExtension rt pathname
         then (Block 404 ''Not Found'', [js ''Blocked request (extension): '' @ pathname])
         else if isBlockedPath pathname
         then (Block 404 ''Not Found'', [js ''Blocked request (path pattern): '' @ pathname])
         else if hasSuspiciousQuery search_string
         then (Block 400 ''Bad Request'',
               [js ''Blocked request (suspicious query): '' @ pathname @ search_string])
         else if hasSuspiciousHeaders req
         then (Block 400 ''Bad Request'',
               [js ''Blocked request (suspicious headers): '' @ pathname])
         else
           (case (isSuspiciousUserAgent userAgent, truthy userAgent) of
              (True, Some ua) \<Rightarrow>
                if test MALICIOUS_USER_AGENT ua
                then (Block 403 ''Forbidden'',
                      [js ''Blocked request (malicious UA): '' @ ua @ js '' for '' @ pathname])
                else (fst (method_rules rt req),
                      (js ''Suspicious user agent detected: '' @ ua @ js '' for '' @ pathname) #
                      snd (method_rules rt req))
            | (True, None) \<Rightarrow>
                (fst (method_rules rt req),
                 (js ''Suspicious user agent detected: (empty) for '' @ pathname) #
                 snd (method_rules rt req))
            | (False, _) \<Rightarrow> method_rules rt req))"

subsection \<open>Example requests\<close>

definition browse :: "string \<Rightarrow> string \<Rightarrow> (string \<times> string) list \<Rightarrow> edge_request" where
  "browse m p hs =
     \<lparr>q_method = js m, q_pathname = js p, q_search = [],
      q_headers = map (\<lambda>(name, v). (js name, js v)) hs\<rparr>"

section \<open>The contact form (send-email)\<close>

subsection \<open>Helpers\<close>

definition isValidEmail :: "jstring \<Rightarrow> bool" where
  "isValidEmail email =
     (let part = many1 (NCls (space_ranges @ [just (CHR ''@'')]));
          emailRegex = AtStart (seqs [part, Lit (cu (CHR ''@'')), part, Lit (cu (CHR ''.'')), part, Eol])
      in test emailRegex email)"

definition escape_char :: "nat \<Rightarrow> jstring" where
  "escape_char c =
     (if c = cu (CHR ''&'') then js ''&amp;''
      else if c = cu (CHR ''<'') then js ''&lt;''
      else if c = cu (CHR ''>'') then js ''&gt;''
      else if c = cu (CHR 0x22) then js ''&quot;''
      else if c = cu (CHR 0x27) then js ''&#039;''
      else [c])"

definition escapeHtml :: "jstring \<Rightarrow> jstring" where
  "escapeHtml s = concat (map escape_char s)"

text \<open>\<open>String.prototype.includes\<close>.\<close>

fun includes_sub :: "jstring \<Rightarrow> jstring \<Rightarrow> bool" where
  "includes_sub [] sub = (sub = [])"
| "includes_sub (c # cs) sub = (startsWith (c # cs) sub \<or> includes_sub cs sub)"

definition sanitizeInput :: "jstring \<Rightarrow> nat \<Rightarrow> jstring" where
  "sanitizeInput s maxLength = take maxLength (trim s)"

definition spamPatterns :: "regexp list" where
  "spamPatterns =
     (let url = seqs [liti ''http'', opt (LitI (cu (CHR ''s''))), liti ''://''];
          nonspace = NCls space_ranges
      in map Anywhere
        [liti ''[url='',
         liti ''[/url]'',
         seqs [liti ''<a'', many1 ws, liti ''href=''],
         seqs [url, many1 nonspace, many1 ws, url, many1 nonspace, many1 ws, url],
         alts (liti ''viagra'')
           [liti ''cialis'', liti ''casino'', liti ''lottery'', liti ''winner'',
            seqs [liti ''bitcoin'', Star Dot, liti ''invest'']],
         seqs [liti ''click'', many1 ws, liti ''here'', Star Dot, liti ''http''],
         alts (liti ''$$$'')
           [liti ''make money fast'', seqs [liti ''work from home'', Star Dot, liti ''$'']]])"

definition containsSpamPatterns :: "jstring \<Rightarrow> bool" where
  "containsSpamPatterns s = list_ex (\<lambda>pattern. test pattern s) spamPatterns"

definition isValidName :: "jstring \<Rightarrow> bool" where
  "isValidName name =
     (if test (Anywhere (seqs [liti ''http'', opt (LitI (cu (CHR ''s''))), liti ''://''])) name
        then False
      else if test (Anywhere (Cls [just (CHR ''<''), just (CHR ''>''), just (CHR ''{''),
                just (CHR ''}''), just (CHR ''[''), just (CHR '']''), just backslash,
                just (CHR ''/'')])) name
        then False
      else if \<not> test (Anywhere (Cls [span (CHR ''a'') (CHR ''z''), span (CHR ''A'') (CHR ''Z'')])) name
        then False
      else True)"

subsection \<open>Submissions and what the e-mail API answers\<close>

text \<open>
  The JSON body of a submission; a field is \<open>None\<close> when the object does not carry
  it. \<open>website\<close> is the honeypot.
\<close>

record form_data =
  f_name :: "jstring option"
  f_email :: "jstring option"
  f_phone :: "jstring option"
  f_company :: "jstring option"
  f_budget :: "jstring option"
  f_message :: "jstring option"
  f_website :: "jstring option"

record form_request =
  fr_method :: jstring
  fr_json :: "form_data option"

text \<open>
  The body of a refusal by the e-mail API (\<open>None\<close>: not JSON) and its HTTP status.
  \<open>form_ext\<close> is what one invocation receives from outside: the clock, whether the
  store answers, and the outcome of the first \<open>fetch\<close>. The outcome of the second
  one, the confirmation, is ignored by the handler (its exception is caught, its
  status is not read).
\<close>

record error_json =
  ej_name :: "jstring option"
  ej_message :: "jstring option"
  ej_statusCode :: "nat option"

record refusal =
  rf_status :: nat
  rf_json :: "error_json option"

record form_ext =
  fx_now :: int
  fx_db_ok :: bool
  fx_fetch :: fetch_result
  fx_refusal :: refusal

definition message_includes :: "error_json \<Rightarrow> string \<Rightarrow> bool" where
  "message_includes j sub =
     (case ej_message j of None \<Rightarrow> False | Some msg \<Rightarrow> includes_sub msg (js sub))"

definition userMessage :: "refusal \<Rightarrow> string" where
  "userMessage rf =
     (case rf_json rf of
        None \<Rightarrow> ''Failed to send email. Please try again later.''
      | Some errorJson \<Rightarrow>
          if ej_name errorJson = Some (js ''validation_error'') then
            (if message_includes errorJson ''verify a domain''
               then ''Email service configuration issue. Please contact us directly via phone or email.''
             else if message_includes errorJson ''can only send''
               then ''Email service configuration issue. Please contact us directly.''
             else if message_includes errorJson ''invalid'' \<and> message_includes errorJson ''from''
               then ''Email service configuration issue. Please contact us directly.''
             else ''Email service configuration issue. Please contact us directly.'')
          else if rf_status rf = 403 \<or> ej_statusCode errorJson = Some 403
            then ''Email service configuration issue. Please contact us directly.''
          else if rf_status rf = 401
            then ''Email service configuration issue. Please contact us directly.''
          else if rf_status rf = 429
            then ''Too many requests. Please wait a moment and try again.''
          else ''Failed to send email. Please try again later.'')"

subsection \<open>The messages\<close>

definition newline :: jstring where
  "newline = [0x0A]"

text \<open>The dash of the confirmation, U+2014.\<close>

definition em_dash :: jstring where
  "em_dash = [0x2014]"

definition or_else :: "jstring option \<Rightarrow> jstring \<Rightarrow> jstring" where
  "or_else v d = (case truthy v of None \<Rightarrow> d | Some s \<Rightarrow> s)"

definition inquiry_mail :: "jstring \<Rightarrow> jstring \<Rightarrow> jstring \<Rightarrow> jstring \<Rightarrow> jstring option \<Rightarrow> jstring \<Rightarrow> mail" where
  "inquiry_mail fromEmail recipientEmail name email phone message =
     \<lparr>m_from = fromEmail, m_to = recipientEmail, m_reply_to = Some email,
      m_subject = js ''New Inquiry from '' @ escapeHtml name,
      m_text = trim (newline @ js ''New Inquiry from Contact Form'' @ newline @ newline @
                 js ''Name: '' @ name @ newline @
                 js ''Email: '' @ email @ newline @
                 js ''Phone: '' @ or_else phone (js ''Not provided'') @ newline @ newline @
                 js ''Message:'' @ newline @ message @ newline @ js ''        '')\<rparr>"

definition confirmation_mail :: "jstring \<Rightarrow> jstring \<Rightarrow> jstring \<Rightarrow> jstring \<Rightarrow> mail" where
  "confirmation_mail fromEmail recipientEmail name email =
     \<lparr>m_from = fromEmail, m_to = email, m_reply_to = Some recipientEmail,
      m_subject = js ''Got your message '' @ em_dash @ js '' Scale Rebel Studio'',
      m_text = js ''Hey '' @ takeWhile (\<lambda>c. c \<noteq> cu (CHR '' '')) name @ js '','' @
        newline @ newline @
        js ''Just confirming I received your inquiry. I'' @ [cu (CHR 0x27)] @
        js ''ll review everything and get back to you within one week.'' @ newline @ newline @
        js ''In the meantime, feel free to reply to this email if you have anything to add.'' @
        newline @ newline @ em_dash @ js '' Scale Rebel Studio'' @ newline @
        js ''https://www.thescalerebel.com''\<rparr>"

subsection \<open>The handler\<close>

definition form_success :: response where
  "form_success = \<lparr>status = 200, body = SuccessMessage ''Email sent successfully''\<rparr>"

definition form_error :: "string \<Rightarrow> nat \<Rightarrow> response" where
  "form_error message st = \<lparr>status = st, body = Failure message\<rparr>"

definition store_inquiry :: "form_ext \<Rightarrow> form_data \<Rightarrow> jstring \<Rightarrow> jstring \<Rightarrow> jstring \<Rightarrow> world \<Rightarrow> world" where
  "store_inquiry x formData name email message w =
     (if \<not> fx_db_ok x then w
      else
        let company = map_option (\<lambda>s. sanitizeInput s 200) (truthy (f_company formData));
            budget = map_option (\<lambda>s. sanitizeInput s 100) (truthy (f_budget formData))
        in w\<lparr>inquiries := inquiries w @
                [\<lparr>i_id = inquiry_serial w, i_client_id = None, i_name = name, i_email = email,
                  i_company = company, i_budget = budget, i_message = message,
                  i_created_at = fx_now x\<rparr>],
              inquiry_serial := Suc (inquiry_serial w)\<rparr>)"

definition send_email :: "env \<Rightarrow> form_ext \<Rightarrow> form_request \<Rightarrow> world \<Rightarrow> response \<times> world" where
  "send_email e x req w =
     (if fr_method req \<noteq> js ''POST'' then (form_error ''Method not allowed'' 405, w)
      else
        (case fr_json req of
           None \<Rightarrow> (form_error ''Invalid request format'' 400, w)
         | Some formData \<Rightarrow>
             if (case truthy (f_website formData) of None \<Rightarrow> False | Some site \<Rightarrow> trim site \<noteq> [])
             then (form_success, w)
             else
               let name = sanitizeInput (or_else (f_name formData) []) 200;
                   email = sanitizeInput (or_else (f_email formData) []) 254;
                   phone = map_option (\<lambda>s. sanitizeInput s 30) (truthy (f_phone formData));
                   message = sanitizeInput (or_else (f_message formData) []) 10000
               in if name = [] \<or> email = [] \<or> message = []
                  then (form_error
                     ''Missing required fields: name, email, and message are required'' 400, w)
                  else if \<not> isValidEmail email
                  then (form_error ''Please provide a valid email address'' 400, w)
                  else if \<not> isValidName name
                  then (form_error ''Please provide a valid name'' 400, w)
                  else if containsSpamPatterns message \<or> containsSpamPatterns name
                  then (form_success, w)
                  else
                    (case (truthy (RESEND_API_KEY e), truthy (CONTACT_EMAIL e), truthy (FROM_EMAIL e)) of
                       (Some resendApiKey, Some recipientEmail, Some fromEmail) \<Rightarrow>
                         let w1 = w\<lparr>outbox := outbox w @
                                    [inquiry_mail fromEmail recipientEmail name email phone message]\<rparr>
                         in (case fx_fetch x of
                               NetworkError \<Rightarrow> (form_error ''Internal server error'' 500, w1)
                             | Refused \<Rightarrow> (form_error (userMessage (fx_refusal x)) 500, w1)
                             | Accepted \<Rightarrow>
                                 let w2 = w1\<lparr>outbox := outbox w1 @
                                            [confirmation_mail fromEmail recipientEmail name email]\<rparr>;
                                     w3 = store_inquiry x formData name email message w2
                                 in (form_success, w3))
                     | _ \<Rightarrow> (form_error
                          ''Email service not configured. Please contact us directly.'' 500, w))))"

subsection \<open>Example submissions\<close>

definition form_now :: form_ext where
  "form_now = \<lparr>fx_now = 1000, fx_db_ok = True, fx_fetch = Accepted,
               fx_refusal = \<lparr>rf_status = 500, rf_json = None\<rparr>\<rparr>"

definition submission :: "jstring option \<Rightarrow> form_request" where
  "submission site =
     \<lparr>fr_method = js ''POST'',
      fr_json = Some \<lparr>f_name = Some (js ''Ada Lovelace''), f_email = Some (js ''ada@example.org''),
                      f_phone = None, f_company = None, f_budget = None,
                      f_message = Some (js ''I would like a new site.''), f_website = site\<rparr>\<rparr>"


section \<open>Properties of the admin API\<close>

subsection \<open>Literals, absent values and the Bearer prefix\<close>

lemma js_eq_iff [simp]: "js a = js b \<longleftrightarrow> a = b"
proof -
  have "inj cu" unfolding cu_def by (rule inj_of_char)
  then show ?thesis unfolding js_def by (simp add: inj_map_eq_map)
qed

lemma js_Nil [simp]: "js [] = []" "js s = [] \<longleftrightarrow> s = []" "[] = js s \<longleftrightarrow> s = []"
  by (auto simp: js_def)

lemma length_js [simp]: "length (js s) = length s"
  by (simp add: js_def)

lemma js_append: "js a @ js b = js (a @ b)" "js a @ js b @ t = js (a @ b) @ t"
  by (simp_all add: js_def)

lemma take_js [simp]: "take n (js s) = js (take n s)"
  by (simp add: js_def take_map)

lemma drop_js [simp]: "drop n (js s) = js (drop n s)"
  by (simp add: js_def drop_map)

lemma truthy_js [simp]: "truthy (Some (js s)) = (if s = [] then None else Some (js s))"
  by (cases s) (simp_all add: js_def)

lemma truthy_Some_iff: "truthy v = Some s \<longleftrightarrow> v = Some s \<and> s \<noteq> []"
  by (cases v rule: truthy.cases) auto

lemma truthy_None_iff: "truthy v = None \<longleftrightarrow> v = None \<or> v = Some []"
  by (cases v rule: truthy.cases) auto

lemma startsWith_iff: "startsWith s p \<longleftrightarrow> (\<exists>t. s = p @ t)"
proof
  assume "startsWith s p"
  then have "s = p @ drop (length p) s"
    unfolding startsWith_def by (metis append_take_drop_id)
  then show "\<exists>t. s = p @ t" ..
next
  assume "\<exists>t. s = p @ t"
  then show "startsWith s p" by (auto simp: startsWith_def)
qed

lemma startsWith_bearer: "startsWith (js ''Bearer '' @ t) (js ''Bearer '')"
  unfolding startsWith_iff by blast

lemma bearerToken_bearer: "bearerToken (js ''Bearer '' @ t) = t"
  unfolding bearerToken_def by simp

lemma truthy_bearer: "truthy (Some (js ''Bearer '' @ t)) = Some (js ''Bearer '' @ t)"
  by (simp add: js_def)

subsection \<open>The CORS preflight\<close>

text \<open>
  C10. An \<open>OPTIONS\<close> request is answered with status 204 by the first test of the
  handler: whatever the path, the \<open>Authorization\<close> header, the sessions and the state
  of the store, the answer is the preflight response and nothing is changed. No
  authentication check runs before it, so the answer is never 401.
\<close>

theorem handler_options_preflight:
  "r_method req = js ''OPTIONS'' \<Longrightarrow>
     handler rt e x req w = (Respond \<lparr>status = 204, body = NoContent\<rparr>, w)"
  by (simp add: handler_def handleCors_def)

theorem handler_options_preflight_witness:
  "handler demo_runtime demo_env ((at_time 0)\<lparr>x_db_ok := False\<rparr>)
     \<lparr>r_method = js ''OPTIONS'', r_pathname = js ''/api/admin/clients'', r_authorization = None,
      r_body = None\<rparr>
     empty_world = (Respond \<lparr>status = 204, body = NoContent\<rparr>, empty_world)"
  by (rule handler_options_preflight) simp

subsection \<open>Logout\<close>

lemma logout_response: "fst (logout x h w) = jsonResponse Success 200"
  by (simp add: logout_def split: option.splits)

lemma logout_bearer:
  "x_db_ok x \<Longrightarrow> logout x (Some (js ''Bearer '' @ t)) w =
     (jsonResponse Success 200,
      w\<lparr>admin_sessions := filter (\<lambda>s. s_token s \<noteq> t) (admin_sessions w)\<rparr>)"
  unfolding logout_def truthy_bearer using startsWith_bearer[of t] bearerToken_bearer[of t]
  by simp

lemma logout_no_bearer:
  assumes "\<forall>t. h \<noteq> Some (js ''Bearer '' @ t)"
  shows "logout x h w = (jsonResponse Success 200, w)"
proof (cases "truthy h")
  case None
  then show ?thesis by (simp add: logout_def)
next
  case (Some s)
  then have "h = Some s" by (simp add: truthy_Some_iff)
  with assms have "\<not> startsWith s (js ''Bearer '')"
    unfolding startsWith_iff by blast
  with Some show ?thesis by (simp add: logout_def)
qed

lemma logout_idem:
  assumes "x_db_ok x \<or> \<not> x_db_ok x'"
  shows "logout x' h (snd (logout x h w)) = (jsonResponse Success 200, snd (logout x h w))"
proof (cases "truthy h")
  case None
  then show ?thesis by (simp add: logout_def)
next
  case (Some s)
  show ?thesis
  proof (cases "startsWith s (js ''Bearer '')")
    case False
    with Some show ?thesis by (simp add: logout_def)
  next
    case True
    show ?thesis
    proof (cases "x_db_ok x")
      case False
      with assms have "\<not> x_db_ok x'" by simp
      with Some True False show ?thesis by (simp add: logout_def)
    next
      case dbx: True
      with Some True show ?thesis by (cases "x_db_ok x'") (simp_all add: logout_def)
    qed
  qed
qed

text \<open>
  C8. Logout answers \<open>{success: true}\<close> with status 200 for every \<open>Authorization\<close>
  header, present or not, whether or not the store answers. With a header
  \<open>Bearer t\<close> and the store answering, exactly the session rows holding \<open>t\<close> are
  deleted and nothing else changes; with no Bearer header nothing changes. Repeating
  the call with the same header (at any later time) answers success again and leaves
  the state as the first call left it; the one case left out is a first call during
  which the store failed, followed by a call during which it answers.
\<close>

theorem logout_always_succeeds:
  "fst (logout x h w) = jsonResponse Success 200 \<and>
   (x_db_ok x \<longrightarrow> snd (logout x (Some (js ''Bearer '' @ t)) w) =
        w\<lparr>admin_sessions := filter (\<lambda>s. s_token s \<noteq> t) (admin_sessions w)\<rparr>) \<and>
   ((\<forall>t. h \<noteq> Some (js ''Bearer '' @ t)) \<longrightarrow> snd (logout x h w) = w) \<and>
   (x_db_ok x \<or> \<not> x_db_ok x' \<longrightarrow>
        logout x' h (snd (logout x h w)) = (jsonResponse Success 200, snd (logout x h w)))"
proof (intro conjI impI)
  show "fst (logout x h w) = jsonResponse Success 200" by (rule logout_response)
next
  assume "x_db_ok x"
  then show "snd (logout x (Some (js ''Bearer '' @ t)) w) =
        w\<lparr>admin_sessions := filter (\<lambda>s. s_token s \<noteq> t) (admin_sessions w)\<rparr>"
    by (simp only: logout_bearer snd_conv)
next
  assume "\<forall>t. h \<noteq> Some (js ''Bearer '' @ t)"
  then show "snd (logout x h w) = w" using logout_no_bearer[of h x w] by simp
next
  assume "x_db_ok x \<or> \<not> x_db_ok x'"
  then show "logout x' h (snd (logout x h w)) = (jsonResponse Success 200, snd (logout x h w))"
    by (rule logout_idem)
qed

theorem logout_always_succeeds_witness:
  "fst (logout (at_time 5) (Some (js ''Bearer tokenA'')) two_sessions) = jsonResponse Success 200 \<and>
   admin_sessions (snd (logout (at_time 5) (Some (js ''Bearer tokenA'')) two_sessions)) =
     [\<lparr>s_id = 2, s_token = js ''tokenB'', s_email = js ''owner@site.io'',
       s_expires_at = 86460, s_created_at = 60\<rparr>] \<and>
   snd (logout (at_time 5) None two_sessions) = two_sessions \<and>
   logout (at_time 9) (Some (js ''Bearer tokenA''))
       (snd (logout (at_time 5) (Some (js ''Bearer tokenA'')) two_sessions)) =
     (jsonResponse Success 200,
      snd (logout (at_time 5) (Some (js ''Bearer tokenA'')) two_sessions))"
proof -
  have db: "x_db_ok (at_time 5)" by (simp add: at_time_def)
  have nb: "\<forall>t. (None :: jstring option) \<noteq> Some (js ''Bearer '' @ t)" by simp
  have hd: "js ''Bearer tokenA'' = js ''Bearer '' @ js ''tokenA''" by (simp add: js_append)
  note a = logout_always_succeeds[where x = "at_time 5" and h = "Some (js ''Bearer tokenA'')"
      and w = two_sessions and t = "js ''tokenA''" and x' = "at_time 9"]
  note b = logout_always_succeeds[where x = "at_time 5" and h = None and w = two_sessions
      and t = "js ''tokenA''" and x' = "at_time 9"]
  from a b db nb show ?thesis
    unfolding hd[symmetric]
    by (simp add: two_sessions_def empty_world_def logout_def startsWith_def bearerToken_def
        at_time_def jsonResponse_def)
qed

subsection \<open>Sessions\<close>

lemma latest_None_iff: "latest rs = None \<longleftrightarrow> rs = []"
  by (induction rs) (auto split: option.splits)

lemma latest_mem: "latest rs = Some r \<Longrightarrow> r \<in> set rs"
  by (induction rs arbitrary: r) (auto split: option.splits if_splits)

lemma checkAuth_bearer:
  assumes "x_db_ok x"
  shows "checkAuth x (Some (js ''Bearer '' @ t)) w \<longleftrightarrow>
         (\<exists>s\<in>set (admin_sessions w). s_token s = t \<and> s_expires_at s > x_now x)"
proof -
  have "checkAuth x (Some (js ''Bearer '' @ t)) w \<longleftrightarrow>
        filter (live_session (x_now x) t) (admin_sessions w) \<noteq> []"
    unfolding checkAuth_def truthy_bearer using startsWith_bearer[of t] bearerToken_bearer[of t] assms
    by simp
  then show ?thesis by (auto simp: filter_empty_conv live_session_def)
qed

lemma sendOTP_sessions: "admin_sessions (snd (sendOTP rt e x json w)) = admin_sessions w"
  by (simp add: sendOTP_def Let_def split: option.splits fetch_result.splits)

lemma verifyOTP_sessions:
  assumes "s \<in> set (admin_sessions (snd (verifyOTP rt e x json w)))"
  shows "s \<in> set (admin_sessions w) \<or> (s_created_at s = x_now x \<and> s_expires_at s = x_now x + 86400)"
  using assms
  by (auto simp: verifyOTP_def Let_def purge_sessions_def split: option.splits if_splits)

lemma verifyOTP_minted:
  assumes "fst (verifyOTP rt e x json w) = jsonResponse (Session tok n) 200"
  shows "\<exists>s\<in>set (admin_sessions (snd (verifyOTP rt e x json w))).
           s_token s = tok \<and> s_created_at s = x_now x \<and> s_expires_at s = x_now x + 86400"
  using assms
  by (auto simp: verifyOTP_def Let_def jsonResponse_def errorResponse_def split: option.splits if_splits)

lemma logout_sessions:
  "s \<in> set (admin_sessions (snd (logout x h w))) \<Longrightarrow> s \<in> set (admin_sessions w)"
  by (auto simp: logout_def split: option.splits if_splits)

lemma handler_state:
  assumes "Q w" "Q (snd (sendOTP rt e x (r_body req) w))"
    "Q (snd (verifyOTP rt e x (r_body req) w))"
    "Q (snd (logout x (r_authorization req) w))"
  shows "Q (snd (handler rt e x req w))"
  using assms by (simp add: handler_def respond_def)

lemma handler_sessions:
  assumes "s \<in> set (admin_sessions (snd (handler rt e x req w)))"
  shows "s \<in> set (admin_sessions w) \<or> (s_created_at s = x_now x \<and> s_expires_at s = x_now x + 86400)"
proof -
  let ?Q = "\<lambda>w'. s \<in> set (admin_sessions w') \<longrightarrow>
      s \<in> set (admin_sessions w) \<or> (s_created_at s = x_now x \<and> s_expires_at s = x_now x + 86400)"
  have "?Q (snd (handler rt e x req w))"
  proof (rule handler_state)
    show "?Q w" by simp
    show "?Q (snd (sendOTP rt e x (r_body req) w))" by (simp add: sendOTP_sessions)
    show "?Q (snd (verifyOTP rt e x (r_body req) w))" using verifyOTP_sessions by blast
    show "?Q (snd (logout x (r_authorization req) w))" using logout_sessions by blast
  qed
  with assms show ?thesis by blast
qed

lemma handler_unauthorized:
  assumes "x_db_ok x" "r_method req \<noteq> js ''OPTIONS''" "\<not> otp_route req"
    "\<not> checkAuth x (r_authorization req) w"
  shows "handler rt e x req w = (Respond (errorResponse ''Unauthorized'' 401), w)"
  using assms by (auto simp: handler_def otp_route_def)

subsection \<open>Evaluating the example data\<close>

lemma lower_demo:
  "toLowerCase rt (js ''Owner@site.io'') = js ''owner@site.io''"
  "toLowerCase rt (js ''owner@site.io'') = js ''owner@site.io''"
  "toLowerCase rt (js ''guest@else.org'') = js ''guest@else.org''"
  by code_simp+

lemmas demo_defs = demo_env_def empty_world_def at_time_def login_body_def login_as_def
  issue_def redeem_def two_sessions_def lower_demo

lemmas otp_defs = sendOTP_def verifyOTP_def purge_codes_def recent_code_def valid_otp_def
  mark_used_def purge_sessions_def jsonResponse_def errorResponse_def otp_mail_def Let_def


text \<open>
  C4 (amended). While the store answers, a request carrying \<open>Bearer t\<close> passes
  \<open>checkAuth\<close> iff some session row holds exactly \<open>t\<close> and its expiry is strictly
  later than now. A session minted by \<open>verifyOTP\<close> expires 86400 seconds after the
  call, and no request adds a row with another expiry or changes a stored one (a row
  of the new state is a row of the old one or was created by this call). A request
  that reaches the authentication check, that is every request but an \<open>OPTIONS\<close>
  preflight and a POST to \<open>otp/send\<close>, \<open>otp/verify\<close> or \<open>otp/logout\<close>, and
  whose token has no unexpired row is answered 401 and changes nothing.
\<close>

theorem session_token_fixed_expiry:
  assumes "x_db_ok x"
  shows "(checkAuth x (Some (js ''Bearer '' @ t)) w \<longleftrightarrow>
            (\<exists>s\<in>set (admin_sessions w). s_token s = t \<and> s_expires_at s > x_now x)) \<and>
         (\<forall>tok n. fst (verifyOTP rt e x json w) = jsonResponse (Session tok n) 200 \<longrightarrow>
            (\<exists>s\<in>set (admin_sessions (snd (verifyOTP rt e x json w))).
               s_token s = tok \<and> s_created_at s = x_now x \<and> s_expires_at s = x_now x + 86400)) \<and>
         (\<forall>s\<in>set (admin_sessions (snd (handler rt e x req w))).
            s \<in> set (admin_sessions w) \<or>
            (s_created_at s = x_now x \<and> s_expires_at s = x_now x + 86400)) \<and>
         (r_method req \<noteq> js ''OPTIONS'' \<and> \<not> otp_route req \<and>
          r_authorization req = Some (js ''Bearer '' @ t) \<and>
          (\<forall>s\<in>set (admin_sessions w). s_token s = t \<longrightarrow> s_expires_at s \<le> x_now x) \<longrightarrow>
            handler rt e x req w = (Respond (errorResponse ''Unauthorized'' 401), w))"
proof (intro conjI allI impI ballI)
  show "checkAuth x (Some (js ''Bearer '' @ t)) w \<longleftrightarrow>
            (\<exists>s\<in>set (admin_sessions w). s_token s = t \<and> s_expires_at s > x_now x)"
    by (rule checkAuth_bearer[OF assms])
next
  fix tok n
  assume "fst (verifyOTP rt e x json w) = jsonResponse (Session tok n) 200"
  then show "\<exists>s\<in>set (admin_sessions (snd (verifyOTP rt e x json w))).
               s_token s = tok \<and> s_created_at s = x_now x \<and> s_expires_at s = x_now x + 86400"
    by (rule verifyOTP_minted)
next
  fix s
  assume "s \<in> set (admin_sessions (snd (handler rt e x req w)))"
  then show "s \<in> set (admin_sessions w) \<or>
            (s_created_at s = x_now x \<and> s_expires_at s = x_now x + 86400)"
    by (rule handler_sessions)
next
  assume a: "r_method req \<noteq> js ''OPTIONS'' \<and> \<not> otp_route req \<and>
          r_authorization req = Some (js ''Bearer '' @ t) \<and>
          (\<forall>s\<in>set (admin_sessions w). s_token s = t \<longrightarrow> s_expires_at s \<le> x_now x)"
  then have "\<not> checkAuth x (r_authorization req) w"
    using checkAuth_bearer[OF assms, of t w] by auto
  with a assms show "handler rt e x req w = (Respond (errorResponse ''Unauthorized'' 401), w)"
    by (simp add: handler_unauthorized)
qed

theorem session_token_fixed_expiry_witness:
  "checkAuth (at_time 86399) (Some (js ''Bearer tokenA'')) two_sessions \<and>
   \<not> checkAuth (at_time 86400) (Some (js ''Bearer tokenA'')) two_sessions \<and>
   admin_sessions (snd (redeem 5 ''tokenC'' (issue 0 empty_world))) =
     [\<lparr>s_id = 1, s_token = js ''tokenC'', s_email = js ''owner@site.io'',
       s_expires_at = 86405, s_created_at = 5\<rparr>] \<and>
   handler demo_runtime demo_env (at_time 86400)
     \<lparr>r_method = js ''GET'', r_pathname = js ''/api/admin/clients'',
      r_authorization = Some (js ''Bearer tokenA''), r_body = None\<rparr> two_sessions =
     (Respond (errorResponse ''Unauthorized'' 401), two_sessions)"
proof -
  have db: "x_db_ok (at_time t)" for t by (simp add: at_time_def)
  have hd: "js ''Bearer tokenA'' = js ''Bearer '' @ js ''tokenA''" by (simp add: js_append)
  note a = session_token_fixed_expiry[OF db[of 86399], where t = "js ''tokenA''"
      and w = two_sessions]
  note b = session_token_fixed_expiry[OF db[of 86400], where t = "js ''tokenA''"
      and w = two_sessions and rt = demo_runtime and e = demo_env and req =
      "\<lparr>r_method = js ''GET'', r_pathname = js ''/api/admin/clients'',
        r_authorization = Some (js ''Bearer tokenA''), r_body = None\<rparr>"]
  have c: "admin_sessions (snd (redeem 5 ''tokenC'' (issue 0 empty_world))) =
     [\<lparr>s_id = 1, s_token = js ''tokenC'', s_email = js ''owner@site.io'',
       s_expires_at = 86405, s_created_at = 5\<rparr>]"
    by (simp add: demo_defs otp_defs)
  from a b c show ?thesis
    unfolding hd[symmetric]
    by (simp add: two_sessions_def empty_world_def at_time_def otp_route_def endsWith_def)
qed

text \<open>
  C4 as stated fails: with a token expired since more than an hour, a POST to
  \<open>/api/admin/otp/logout\<close> is answered 200 and an \<open>OPTIONS\<close> request 204.
\<close>

theorem expired_token_not_always_401:
  "\<not> checkAuth (at_time 90000) (Some (js ''Bearer tokenA'')) two_sessions \<and>
   fst (handler demo_runtime demo_env (at_time 90000)
     \<lparr>r_method = js ''POST'', r_pathname = js ''/api/admin/otp/logout'',
      r_authorization = Some (js ''Bearer tokenA''), r_body = None\<rparr> two_sessions) =
     Respond \<lparr>status = 200, body = Success\<rparr> \<and>
   fst (handler demo_runtime demo_env (at_time 90000)
     \<lparr>r_method = js ''OPTIONS'', r_pathname = js ''/api/admin/clients'',
      r_authorization = Some (js ''Bearer tokenA''), r_body = None\<rparr> two_sessions) =
     Respond \<lparr>status = 204, body = NoContent\<rparr>"
  by (simp add: handler_def handleCors_def respond_def logout_def checkAuth_def startsWith_def
      bearerToken_def live_session_def endsWith_def demo_defs jsonResponse_def)


subsection \<open>Expiry of codes\<close>


lemma mark_used_fields:
  assumes "r \<in> set (mark_used i rows)"
  shows "\<exists>r0\<in>set rows. o_expires_at r = o_expires_at r0 \<and> o_created_at r = o_created_at r0 \<and>
           o_email r = o_email r0 \<and> o_code r = o_code r0 \<and> o_id r = o_id r0 \<and>
           (o_used r \<longleftrightarrow> o_used r0 \<or> o_id r0 = i)"
  using assms by (auto simp: mark_used_def split: if_splits)




lemma verifyOTP_no_valid:
  assumes "x_db_ok x" "truthy (b_email b) = Some email" "truthy (b_code b) = Some code"
    "filter (valid_otp (x_now x) (toLowerCase rt email) code) (otp_codes w) = []"
  shows "status (fst (verifyOTP rt e x (Some b) w)) = 401 \<and> snd (verifyOTP rt e x (Some b) w) = w"
proof (cases "truthy (ADMIN_EMAIL e)")
  case None
  with assms show ?thesis
    by (simp add: verifyOTP_def jsonResponse_def errorResponse_def)
next
  case (Some adminEmail)
  show ?thesis
  proof (cases "toLowerCase rt email = toLowerCase rt adminEmail")
    case False
    with Some assms show ?thesis
      by (simp add: verifyOTP_def jsonResponse_def errorResponse_def)
  next
    case True
    have "latest (filter (valid_otp (x_now x) (toLowerCase rt email) code) (otp_codes w)) = None"
      using assms(4) by simp
    with Some True assms(1-3) show ?thesis
      by (simp add: verifyOTP_def jsonResponse_def errorResponse_def del: latest.simps)
  qed
qed


lemma issue_once:
  "issue 0 empty_world = empty_world\<lparr>otp_codes :=
      [\<lparr>o_id = 1, o_email = js ''owner@site.io'', o_code = js ''483920'', o_expires_at = 600,
        o_used = False, o_created_at = 0\<rparr>],
     otp_serial := 2,
     outbox := [otp_mail (js ''noreply@site.io'') (js ''Owner@site.io'') (js ''483920'')]\<rparr>"
  by (simp add: demo_defs otp_defs)


text \<open>
  The e-mail of a request is compared after the runtime has lowercased it, so an
  address written with the Kelvin sign in place of \<open>k\<close> is the administrator's:
  a code is stored for it under the lowercased address and is accepted five seconds
  later. The hypothesis of the theorem above speaks of the rows under the lowercased
  address, and here that row is fresh.
\<close>

lemma lower_kelvin:
  "toLowerCase folding_runtime kelvin_email = js ''ok@site.io''"
  "toLowerCase folding_runtime (js ''ok@site.io'') = js ''ok@site.io''"
  "truthy (Some kelvin_email) = Some kelvin_email"
  by code_simp+

lemma kelvin_sign_login:
  "map o_email (otp_codes (snd (sendOTP folding_runtime kelvin_env (at_time 0) kelvin_body
       empty_world))) = [js ''ok@site.io''] \<and>
   status (fst (verifyOTP folding_runtime kelvin_env (at_time 5) kelvin_body
       (snd (sendOTP folding_runtime kelvin_env (at_time 0) kelvin_body empty_world)))) = 200"
  by (simp add: kelvin_env_def kelvin_body_def empty_world_def at_time_def lower_kelvin otp_defs)

subsection \<open>Single use of a code\<close>

lemma latest_unique:
  assumes "r \<in> set rs" "\<forall>r'\<in>set rs. r' = r"
  shows "latest rs = Some r"
proof (cases "latest rs")
  case None
  with assms(1) show ?thesis by (simp add: latest_None_iff)
next
  case (Some r')
  from latest_mem[OF this] assms(2) Some show ?thesis by simp
qed

lemma mark_used_mem:
  "r \<in> set rows \<Longrightarrow> r\<lparr>o_used := True\<rparr> \<in> set (mark_used (o_id r) rows)"
  by (force simp: mark_used_def)

lemma verifyOTP_accepts:
  assumes db: "x_db_ok x"
    and adm: "truthy (ADMIN_EMAIL e) = Some admin"
    and em: "truthy (b_email b) = Some email" "toLowerCase rt email = toLowerCase rt admin"
    and cd: "truthy (b_code b) = Some code"
    and sel: "latest (filter (valid_otp (x_now x) (toLowerCase rt email) code) (otp_codes w)) = Some r"
    and fresh: "\<forall>s\<in>set (admin_sessions w). s_token s \<noteq> x_token x"
  shows "verifyOTP rt e x (Some b) w =
     (jsonResponse (Session (x_token x) 86400) 200,
      w\<lparr>otp_codes := mark_used (o_id r) (otp_codes w),
        admin_sessions := purge_sessions (x_now x) (admin_sessions w) @
          [\<lparr>s_id = session_serial w, s_token = x_token x, s_email = toLowerCase rt email,
            s_expires_at = x_now x + 86400, s_created_at = x_now x\<rparr>],
        session_serial := Suc (session_serial w)\<rparr>)"
proof -
  have "filter (\<lambda>s. s_token s = x_token x) (purge_sessions (x_now x) (admin_sessions w)) = []"
    using fresh by (auto simp: filter_empty_conv purge_sessions_def)
  with db adm em cd sel show ?thesis
    by (simp add: verifyOTP_def Let_def del: latest.simps)
qed

text \<open>
  C1 (amended). Let the store answer, the e-mail of the request match \<open>ADMIN_EMAIL\<close>
  up to case, and a stored row \<open>r\<close> hold that e-mail and the presented code, unused
  and unexpired. If \<open>r\<close> is the only such row and the minted session token is not
  already stored, the call answers 200 with the token and \<open>expiresIn = 86400\<close> and
  marks \<open>r\<close> used; every later verify call with the same body on the resulting state
  answers 401 and changes nothing.
\<close>

theorem verifyOTP_single_use:
  assumes db: "x_db_ok x" "x_db_ok x'" and later: "x_now x \<le> x_now x'"
    and adm: "truthy (ADMIN_EMAIL e) = Some admin"
    and em: "truthy (b_email b) = Some email" "toLowerCase rt email = toLowerCase rt admin"
    and cd: "truthy (b_code b) = Some code"
    and row: "r \<in> set (otp_codes w)" "valid_otp (x_now x) (toLowerCase rt email) code r"
    and only: "\<forall>r'\<in>set (otp_codes w). valid_otp (x_now x) (toLowerCase rt email) code r' \<longrightarrow> r' = r"
    and fresh: "\<forall>s\<in>set (admin_sessions w). s_token s \<noteq> x_token x"
  shows "fst (verifyOTP rt e x (Some b) w) = jsonResponse (Session (x_token x) 86400) 200 \<and>
         r\<lparr>o_used := True\<rparr> \<in> set (otp_codes (snd (verifyOTP rt e x (Some b) w))) \<and>
         status (fst (verifyOTP rt e x' (Some b) (snd (verifyOTP rt e x (Some b) w)))) = 401 \<and>
         snd (verifyOTP rt e x' (Some b) (snd (verifyOTP rt e x (Some b) w))) =
           snd (verifyOTP rt e x (Some b) w)"
proof -
  let ?valid = "valid_otp (x_now x) (toLowerCase rt email) code"
  have "r \<in> set (filter ?valid (otp_codes w))" using row by simp
  moreover have "\<forall>r'\<in>set (filter ?valid (otp_codes w)). r' = r" using only by simp
  ultimately have sel: "latest (filter ?valid (otp_codes w)) = Some r" by (rule latest_unique)
  note first = verifyOTP_accepts[OF db(1) adm em cd sel fresh]
  let ?w' = "snd (verifyOTP rt e x (Some b) w)"
  have codes': "otp_codes ?w' = mark_used (o_id r) (otp_codes w)" by (simp add: first)
  have none: "filter (valid_otp (x_now x') (toLowerCase rt email) code) (otp_codes ?w') = []"
    unfolding codes' filter_empty_conv
  proof (intro ballI notI)
    fix q assume q: "q \<in> set (mark_used (o_id r) (otp_codes w))"
      and v: "valid_otp (x_now x') (toLowerCase rt email) code q"
    from mark_used_fields[OF q] obtain q0 where q0: "q0 \<in> set (otp_codes w)"
      "o_expires_at q = o_expires_at q0" "o_email q = o_email q0" "o_code q = o_code q0"
      "o_used q \<longleftrightarrow> o_used q0 \<or> o_id q0 = o_id r" by blast
    from v q0 later have "valid_otp (x_now x) (toLowerCase rt email) code q0"
      by (simp add: valid_otp_def)
    with only q0(1) have "q0 = r" by blast
    with q0(5) have "o_used q" by simp
    with v show False by (simp add: valid_otp_def)
  qed
  from verifyOTP_no_valid[OF db(2) em(1) cd none, of e] first mark_used_mem[OF row(1)]
  show ?thesis by simp
qed

theorem verifyOTP_single_use_witness:
  "fst (redeem 5 ''tokenA'' (issue 0 empty_world)) = jsonResponse (Session (js ''tokenA'') 86400) 200 \<and>
   otp_codes (snd (redeem 5 ''tokenA'' (issue 0 empty_world))) =
     [\<lparr>o_id = 1, o_email = js ''owner@site.io'', o_code = js ''483920'', o_expires_at = 600,
       o_used = True, o_created_at = 0\<rparr>] \<and>
   status (fst (redeem 6 ''tokenB'' (snd (redeem 5 ''tokenA'' (issue 0 empty_world))))) = 401"
proof -
  let ?r = "\<lparr>o_id = 1, o_email = js ''owner@site.io'', o_code = js ''483920'', o_expires_at = 600,
       o_used = False, o_created_at = 0\<rparr>"
  let ?b = "\<lparr>b_email = Some (js ''Owner@site.io''), b_code = Some (js ''483920'')\<rparr>"
  let ?x = "(at_time 5)\<lparr>x_token := js ''tokenA''\<rparr>"
  let ?x' = "(at_time 6)\<lparr>x_token := js ''tokenB''\<rparr>"
  let ?w = "issue 0 empty_world"
  have codes: "otp_codes ?w = [?r]" by (simp add: issue_once)
  have sess: "admin_sessions ?w = []" unfolding issue_once by (simp add: empty_world_def)
  have h1: "x_db_ok ?x" and h2: "x_db_ok ?x'" and h3: "x_now ?x \<le> x_now ?x'"
    by (simp_all add: at_time_def)
  have h4: "truthy (ADMIN_EMAIL demo_env) = Some (js ''owner@site.io'')"
    by (simp add: demo_env_def)
  have h5: "truthy (b_email ?b) = Some (js ''Owner@site.io'')" by simp
  have h6: "toLowerCase demo_runtime (js ''Owner@site.io'') = toLowerCase demo_runtime (js ''owner@site.io'')"
    by (simp add: lower_demo)
  have h7: "truthy (b_code ?b) = Some (js ''483920'')" by simp
  have h8: "?r \<in> set (otp_codes ?w)" unfolding codes by simp
  have h9: "valid_otp (x_now ?x) (toLowerCase demo_runtime (js ''Owner@site.io'')) (js ''483920'') ?r"
    by (simp add: valid_otp_def lower_demo at_time_def)
  have h10: "\<forall>r'\<in>set (otp_codes ?w).
      valid_otp (x_now ?x) (toLowerCase demo_runtime (js ''Owner@site.io'')) (js ''483920'') r' \<longrightarrow> r' = ?r"
    unfolding codes by simp
  have h11: "\<forall>s\<in>set (admin_sessions ?w). s_token s \<noteq> x_token ?x"
    unfolding sess by simp
  note t = verifyOTP_single_use[OF h1 h2 h3 h4 h5 h6 h7 h8 h9 h10 h11]
  have eq: "redeem 5 ''tokenA'' ?w = verifyOTP demo_runtime demo_env ?x (Some ?b) ?w"
    "\<And>v. redeem 6 ''tokenB'' v = verifyOTP demo_runtime demo_env ?x' (Some ?b) v"
    by (simp_all add: redeem_def login_body_def login_as_def)
  have "fst (redeem 5 ''tokenA'' ?w) = jsonResponse (Session (js ''tokenA'') 86400) 200 \<and>
        status (fst (redeem 6 ''tokenB'' (snd (redeem 5 ''tokenA'' ?w)))) = 401"
    unfolding eq using t by (simp add: at_time_def)
  moreover have "otp_codes (snd (redeem 5 ''tokenA'' ?w)) =
     [\<lparr>o_id = 1, o_email = js ''owner@site.io'', o_code = js ''483920'', o_expires_at = 600,
       o_used = True, o_created_at = 0\<rparr>]"
    by (simp add: issue_once redeem_def demo_defs otp_defs)
  ultimately show ?thesis by simp
qed

text \<open>
  C1 as stated fails when two rows hold the same code: \<open>otp_codes\<close> has no uniqueness
  constraint and \<open>generateOTP\<close> may draw the same six digits twice. The first call
  marks one row (\<open>LIMIT 1\<close>), the replay is accepted on the other.
\<close>

theorem verifyOTP_replay_accepted_duplicate_code:
  "x_otp (at_time 0) = x_otp (at_time 1) \<and>
   status (fst (redeem 5 ''tokenA'' (issue 1 (issue 0 empty_world)))) = 200 \<and>
   fst (redeem 6 ''tokenB'' (snd (redeem 5 ''tokenA'' (issue 1 (issue 0 empty_world))))) =
     jsonResponse (Session (js ''tokenB'') 86400) 200"
  by (simp add: demo_defs otp_defs)


subsection \<open>Requesting a code\<close>

text \<open>
  C3. The answer of \<open>sendOTP\<close> does depend on whether the e-mail is the
  administrator's, although the code means not to reveal it (its comment on the
  mismatch branch: "Don't reveal whether the email exists", "This prevents email
  enumeration"). In a state holding five codes issued to the administrator at time 0,
  the same request at time 60 is answered 429 "Too many attempts. Try again later."
  for the administrator's address and \<open>{sent: true}\<close> with status 200 for another
  address; the two requests differ in the e-mail only, and neither changes the state.
\<close>

theorem sendOTP_response_depends_on_email:
  "sendOTP demo_runtime demo_env (at_time 60) (login_as ''Owner@site.io'') five_codes =
     (errorResponse ''Too many attempts. Try again later.'' 429, five_codes) \<and>
   sendOTP demo_runtime demo_env (at_time 60) (login_as ''guest@else.org'') five_codes =
     (jsonResponse Sent 200, five_codes)"
  by (simp add: five_codes_def demo_defs otp_defs)

text \<open>
  C2. Five codes were issued to the administrator at time 0. A sixth request 600
  seconds later is answered 429; one second later still, inside the 15 minutes, it is
  answered \<open>{sent: true}\<close>: the purge that precedes the count has deleted the five
  rows, which expired after ten minutes.
\<close>

theorem sendOTP_sixth_code_after_ten_minutes:
  "length (otp_codes five_codes) = 5 \<and>
   list_all (\<lambda>r. o_email r = js ''owner@site.io'' \<and> o_created_at r = 0) (otp_codes five_codes) \<and>
   fst (sendOTP demo_runtime demo_env (at_time 600) login_body five_codes) =
     errorResponse ''Too many attempts. Try again later.'' 429 \<and>
   fst (sendOTP demo_runtime demo_env (at_time 601) login_body five_codes) = jsonResponse Sent 200 \<and>
   length (otp_codes (snd (sendOTP demo_runtime demo_env (at_time 601) login_body five_codes))) = 1"
  by (simp add: five_codes_def demo_defs otp_defs)


section \<open>Properties of the edge request filter\<close>

lemma search_Alt: "search (Alt a b) s \<longleftrightarrow> search a s \<or> search b s"
  by (induction s) auto

lemma search_liti_Nil: "\<not> search (liti (c # cs)) []"
  by simp

lemma list_ex_iff_set: "list_ex P xs \<longleftrightarrow> (\<exists>x\<in>set xs. P x)"
  by (simp add: list_ex_iff)

lemma malicious_nonempty: "test MALICIOUS_USER_AGENT ua \<Longrightarrow> ua \<noteq> []"
proof
  assume "test MALICIOUS_USER_AGENT ua" "ua = []"
  then show False
    by (simp add: MALICIOUS_USER_AGENT_def)
qed

lemma malicious_is_blocked:
  assumes "test MALICIOUS_USER_AGENT ua"
  shows "list_ex (\<lambda>pattern. test pattern ua) BLOCKED_USER_AGENTS"
proof -
  from assms have "search (liti ''sqlmap'') ua \<or> search (liti ''nikto'') ua \<or>
      search (liti ''zmeu'') ua \<or> search (liti ''morfeus'') ua \<or> search (liti ''zgrab'') ua \<or>
      search (liti ''wpscan'') ua \<or> search (liti ''acunetix'') ua \<or>
      search (liti ''havij'') ua \<or> search (liti ''w3af'') ua"
    by (simp add: MALICIOUS_USER_AGENT_def search_Alt del: liti.simps)
  then show ?thesis
    unfolding BLOCKED_USER_AGENTS_def
    by (auto simp del: liti.simps)
qed

lemma malicious_suspicious:
  assumes "test MALICIOUS_USER_AGENT ua"
  shows "isSuspiciousUserAgent (Some ua)" "truthy (Some ua) = Some ua"
proof -
  from malicious_nonempty[OF assms] show t: "truthy (Some ua) = Some ua"
    by (cases ua) simp_all
  with malicious_is_blocked[OF assms] show "isSuspiciousUserAgent (Some ua)"
    by (simp add: isSuspiciousUserAgent_def)
qed

text \<open>
  C5 (amended). A request whose declared content length does not exceed 1 MiB and
  whose lowercased path ends in an extension of the deny list is answered 404 "Not
  Found", whatever its method.
\<close>

theorem blocked_extension_404:
  assumes "\<not> isOversizedRequest req" "ext \<in> set BLOCKED_EXTENSIONS"
    "endsWith (toLowerCase rt (q_pathname req)) (js ext)"
  shows "edge_filter rt (req\<lparr>q_method := m\<rparr>) =
     (Block 404 ''Not Found'', [js ''Blocked request (extension): '' @ q_pathname req])"
proof -
  have "isBlockedExtension rt (q_pathname req)"
    using assms(2,3) unfolding isBlockedExtension_def Let_def list_ex_iff by blast
  moreover have "\<not> isOversizedRequest (req\<lparr>q_method := m\<rparr>)"
    using assms(1) by (simp add: isOversizedRequest_def header_get_def)
  ultimately show ?thesis by (simp add: edge_filter_def)
qed

text \<open>
  C9. For a request that reaches the user-agent check (no earlier rule answers it): a
  user agent matching the expression of known scanners is answered 403 "Forbidden";
  an absent or empty user agent, and one that matches the deny list but not that
  expression, is logged as suspicious and the answer is the one the remaining rules
  (method policy, POST allowlist) give.
\<close>

theorem user_agent_rule:
  assumes "\<not> isOversizedRequest req" "\<not> isBlockedExtension rt (q_pathname req)"
    "\<not> isBlockedPath (q_pathname req)" "\<not> hasSuspiciousQuery (q_search req)"
    "\<not> hasSuspiciousHeaders req"
  shows "(\<forall>ua. header_get req (js ''user-agent'') = Some ua \<and> test MALICIOUS_USER_AGENT ua \<longrightarrow>
            edge_filter rt req =
              (Block 403 ''Forbidden'',
               [js ''Blocked request (malicious UA): '' @ ua @ js '' for '' @ q_pathname req])) \<and>
         (header_get req (js ''user-agent'') = None \<or> header_get req (js ''user-agent'') = Some [] \<longrightarrow>
            edge_filter rt req =
              (fst (method_rules rt req),
               (js ''Suspicious user agent detected: (empty) for '' @ q_pathname req) #
               snd (method_rules rt req))) \<and>
         (\<forall>ua. header_get req (js ''user-agent'') = Some ua \<and> ua \<noteq> [] \<and>
               (\<exists>p\<in>set BLOCKED_USER_AGENTS. test p ua) \<and> \<not> test MALICIOUS_USER_AGENT ua \<longrightarrow>
            edge_filter rt req =
              (fst (method_rules rt req),
               (js ''Suspicious user agent detected: '' @ ua @ js '' for '' @ q_pathname req) #
               snd (method_rules rt req)))"
proof (intro conjI allI impI)
  fix ua
  assume a: "header_get req (js ''user-agent'') = Some ua \<and> test MALICIOUS_USER_AGENT ua"
  with malicious_suspicious[of ua] assms
  show "edge_filter rt req =
      (Block 403 ''Forbidden'',
       [js ''Blocked request (malicious UA): '' @ ua @ js '' for '' @ q_pathname req])"
    by (simp add: edge_filter_def)
next
  assume "header_get req (js ''user-agent'') = None \<or> header_get req (js ''user-agent'') = Some []"
  then have "truthy (header_get req (js ''user-agent'')) = None" by auto
  with assms show "edge_filter rt req =
      (fst (method_rules rt req),
       (js ''Suspicious user agent detected: (empty) for '' @ q_pathname req) #
       snd (method_rules rt req))"
    by (simp add: edge_filter_def isSuspiciousUserAgent_def)
next
  fix ua
  assume a: "header_get req (js ''user-agent'') = Some ua \<and> ua \<noteq> [] \<and>
               (\<exists>p\<in>set BLOCKED_USER_AGENTS. test p ua) \<and> \<not> test MALICIOUS_USER_AGENT ua"
  then have t: "truthy (Some ua) = Some ua" by (cases ua) simp_all
  with a have "isSuspiciousUserAgent (Some ua)"
    by (simp add: isSuspiciousUserAgent_def list_ex_iff)
  with a t assms show "edge_filter rt req =
      (fst (method_rules rt req),
       (js ''Suspicious user agent detected: '' @ ua @ js '' for '' @ q_pathname req) #
       snd (method_rules rt req))"
    by (simp add: edge_filter_def)
qed

theorem blocked_extension_404_witness:
  "edge_filter demo_runtime
       (browse ''DELETE'' ''/upload/Shell.PHP'' [(''user-agent'', ''Mozilla/5.0'')]) =
     (Block 404 ''Not Found'', [js ''Blocked request (extension): /upload/Shell.PHP''])"
proof -
  let ?req = "browse ''POST'' ''/upload/Shell.PHP'' [(''user-agent'', ''Mozilla/5.0'')]"
  have h1: "\<not> isOversizedRequest ?req" by code_simp
  have h2: "''.php'' \<in> set BLOCKED_EXTENSIONS" by (simp add: BLOCKED_EXTENSIONS_def)
  have h3: "endsWith (toLowerCase demo_runtime (q_pathname ?req)) (js ''.php'')" by code_simp
  from blocked_extension_404[OF h1 h2 h3, where m = "js ''DELETE''"] show ?thesis
    by (simp add: browse_def js_def)
qed

text \<open>
  C5 as stated fails: the size check comes first, so a request for a blocked
  extension that declares more than 1 MiB is answered 413.
\<close>

theorem blocked_extension_oversized_413:
  "endsWith (toLowerCase demo_runtime (js ''/index.php'')) (js ''.php'') \<and>
   isBlockedExtension demo_runtime (js ''/index.php'') \<and>
   edge_filter demo_runtime (browse ''GET'' ''/index.php''
       [(''user-agent'', ''Mozilla/5.0''), (''content-length'', ''2000000'')]) =
     (Block 413 ''Payload Too Large'', [js ''Blocked request (oversized): /index.php''])"
  by code_simp

lemma root_path_passes:
  "\<not> isBlockedExtension rt (js ''/'')" "\<not> isBlockedPath (js ''/'')" "\<not> hasSuspiciousQuery []"
  by code_simp+

lemma browse_headers_pass:
  "\<not> isOversizedRequest (browse ''GET'' ''/'' [(''user-agent'', ua)])"
  "\<not> hasSuspiciousHeaders (browse ''GET'' ''/'' [(''user-agent'', ua)])"
  "\<not> isOversizedRequest (browse ''GET'' ''/'' [])"
  "\<not> hasSuspiciousHeaders (browse ''GET'' ''/'' [])"
  by (simp_all add: browse_def isOversizedRequest_def hasSuspiciousHeaders_def header_get_def
      header_has_def SUSPICIOUS_HEADERS_def)

lemma browse_method_rules: "method_rules rt (browse ''GET'' ''/'' hs) = (Next, [])"
proof -
  have "toUpperCase rt (js ''GET'') = js ''GET''" by code_simp
  then show ?thesis
    by (simp add: method_rules_def browse_def startsWith_def)
qed

theorem user_agent_rule_witness:
  "edge_filter demo_runtime (browse ''GET'' ''/'' [(''user-agent'', ''sqlmap/1.7'')]) =
     (Block 403 ''Forbidden'', [js ''Blocked request (malicious UA): sqlmap/1.7 for /'']) \<and>
   edge_filter demo_runtime (browse ''GET'' ''/'' []) =
     (Next, [js ''Suspicious user agent detected: (empty) for /'']) \<and>
   edge_filter demo_runtime (browse ''GET'' ''/'' [(''user-agent'', ''Nmap Scripting Engine'')]) =
     (Next, [js ''Suspicious user agent detected: Nmap Scripting Engine for /''])"
proof -
  have get: "header_get (browse ''GET'' ''/'' [(''user-agent'', ua)]) (js ''user-agent'') =
      Some (js ua)"
    "header_get (browse ''GET'' ''/'' []) (js ''user-agent'') = None" for ua
    by (simp_all add: header_get_def browse_def)
  have path: "q_pathname (browse ''GET'' ''/'' hs) = js ''/''"
    "q_search (browse ''GET'' ''/'' hs) = []"
    for hs by (simp_all add: browse_def)
  have m1: "test MALICIOUS_USER_AGENT (js ''sqlmap/1.7'')" by code_simp
  have m3: "\<not> test MALICIOUS_USER_AGENT (js ''Nmap Scripting Engine'')" by code_simp
  have b3: "\<exists>p\<in>set BLOCKED_USER_AGENTS. test p (js ''Nmap Scripting Engine'')"
  proof
    show "test (Anywhere (liti ''nmap'')) (js ''Nmap Scripting Engine'')" by code_simp
    show "Anywhere (liti ''nmap'') \<in> set BLOCKED_USER_AGENTS"
      by (simp add: BLOCKED_USER_AGENTS_def del: liti.simps)
  qed
  have l1: "js ''Blocked request (malicious UA): '' @ js ''sqlmap/1.7'' @ js '' for '' @ js ''/'' =
      js ''Blocked request (malicious UA): sqlmap/1.7 for /''"
    and l2: "js ''Suspicious user agent detected: (empty) for '' @ js ''/'' =
      js ''Suspicious user agent detected: (empty) for /''"
    and l3: "js ''Suspicious user agent detected: '' @ js ''Nmap Scripting Engine'' @
        js '' for '' @ js ''/'' =
      js ''Suspicious user agent detected: Nmap Scripting Engine for /''"
    by (simp_all add: js_def)
  note r1 = user_agent_rule[where rt = demo_runtime
      and req = "browse ''GET'' ''/'' [(''user-agent'', ''sqlmap/1.7'')]"]
  note r2 = user_agent_rule[where rt = demo_runtime and req = "browse ''GET'' ''/'' []"]
  note r3 = user_agent_rule[where rt = demo_runtime
      and req = "browse ''GET'' ''/'' [(''user-agent'', ''Nmap Scripting Engine'')]"]
  from r1 m1 have "edge_filter demo_runtime (browse ''GET'' ''/'' [(''user-agent'', ''sqlmap/1.7'')]) =
     (Block 403 ''Forbidden'', [js ''Blocked request (malicious UA): sqlmap/1.7 for /''])"
    by (simp add: get path root_path_passes browse_headers_pass l1)
  moreover from r2 have "edge_filter demo_runtime (browse ''GET'' ''/'' []) =
     (Next, [js ''Suspicious user agent detected: (empty) for /''])"
    by (simp add: get path root_path_passes browse_headers_pass browse_method_rules l2)
  moreover from r3 m3 b3
  have "edge_filter demo_runtime (browse ''GET'' ''/'' [(''user-agent'', ''Nmap Scripting Engine'')]) =
     (Next, [js ''Suspicious user agent detected: Nmap Scripting Engine for /''])"
    by (simp add: get path root_path_passes browse_headers_pass browse_method_rules l3)
  ultimately show ?thesis by simp
qed


section \<open>Properties of the contact form\<close>

lemma trim_nonempty: "trim s \<noteq> [] \<Longrightarrow> s \<noteq> []"
  by (auto simp: trim_def)

text \<open>
  C6 (amended). A POST whose JSON body carries a \<open>website\<close> field that is not empty
  after trimming white space is answered \<open>{success: true}\<close> with status 200, and
  the state is unchanged: no message is posted to the e-mail API and no inquiry is
  stored.
\<close>

theorem honeypot_silent_success:
  assumes "fr_method req = js ''POST''" "fr_json req = Some formData"
    "f_website formData = Some site" "trim site \<noteq> []"
  shows "send_email e x req w =
     (\<lparr>status = 200, body = SuccessMessage ''Email sent successfully''\<rparr>, w)"
proof -
  from trim_nonempty[OF assms(4)] have "truthy (Some site) = Some site"
    by (cases site) simp_all
  with assms show ?thesis
    by (simp add: send_email_def form_success_def)
qed

theorem honeypot_silent_success_witness:
  "send_email demo_env form_now (submission (Some (js ''http://spam.example''))) empty_world =
     (\<lparr>status = 200, body = SuccessMessage ''Email sent successfully''\<rparr>, empty_world)"
proof -
  let ?req = "submission (Some (js ''http://spam.example''))"
  have h1: "fr_method ?req = js ''POST''" by (simp add: submission_def)
  have h2: "fr_json ?req = Some (the (fr_json ?req))" by (simp add: submission_def)
  have h3: "f_website (the (fr_json ?req)) = Some (js ''http://spam.example'')"
    by (simp add: submission_def)
  have h4: "trim (js ''http://spam.example'') \<noteq> []" by code_simp
  from honeypot_silent_success[OF h1 h2 h3 h4] show ?thesis .
qed

lemma example_fields:
  "sanitizeInput (js ''Ada Lovelace'') 200 = js ''Ada Lovelace''"
  "sanitizeInput (js ''ada@example.org'') 254 = js ''ada@example.org''"
  "sanitizeInput (js ''I would like a new site.'') 10000 = js ''I would like a new site.''"
  "trim (js ''  '') = []"
  by code_simp+

lemma example_checks:
  "isValidEmail (js ''ada@example.org'')"
  "isValidName (js ''Ada Lovelace'')"
  "\<not> containsSpamPatterns (js ''I would like a new site.'')"
  "\<not> containsSpamPatterns (js ''Ada Lovelace'')"
  by code_simp+

text \<open>
  C6 as stated fails for a \<open>website\<close> field that is not empty but blank: the
  handler trims the field before it compares it with the empty string, so a
  submission with \<open>website\<close> two spaces long is processed like any other; two
  messages are posted and the inquiry is stored.
\<close>

theorem honeypot_blank_is_processed:
  "send_email demo_env form_now (submission (Some (js ''  ''))) empty_world =
     (\<lparr>status = 200, body = SuccessMessage ''Email sent successfully''\<rparr>,
      empty_world\<lparr>
        inquiries := [\<lparr>i_id = 1, i_client_id = None, i_name = js ''Ada Lovelace'',
                       i_email = js ''ada@example.org'', i_company = None, i_budget = None,
                       i_message = js ''I would like a new site.'', i_created_at = 1000\<rparr>],
        inquiry_serial := 2,
        outbox := [inquiry_mail (js ''noreply@site.io'') (js ''owner@site.io'')
                     (js ''Ada Lovelace'') (js ''ada@example.org'') None
                     (js ''I would like a new site.''),
                   confirmation_mail (js ''noreply@site.io'') (js ''owner@site.io'')
                     (js ''Ada Lovelace'') (js ''ada@example.org'')]\<rparr>)"
  by (simp add: send_email_def submission_def demo_env_def form_now_def empty_world_def
      example_fields example_checks or_else_def store_inquiry_def form_success_def Let_def)

text \<open>
  So is a submission whose \<open>website\<close> field holds white space beyond ASCII, a
  no-break space U+00A0 or a byte order mark U+FEFF: \<open>trim\<close> removes them as well.
\<close>

lemma trim_unicode_space: "trim [0xA0, 0x2003, 0xFEFF] = []" "trim [0x200B] = [0x200B]"
  by code_simp+

lemma honeypot_no_break_space_is_processed:
  "length (outbox (snd (send_email demo_env form_now (submission (Some [0xA0, 0x2003, 0xFEFF]))
       empty_world))) = 2 \<and>
   length (inquiries (snd (send_email demo_env form_now (submission (Some [0xA0, 0x2003, 0xFEFF]))
       empty_world))) = 1"
  by (simp add: send_email_def submission_def demo_env_def form_now_def empty_world_def
      trim_unicode_space example_fields example_checks or_else_def store_inquiry_def
      form_success_def Let_def)

end
